theory Spec2Isabelle
  imports Complex_Main "HOL-Library.Log_Nat"
begin

section \<open>Dungeon Dice Tactician: the turn engine\<close>

text \<open>
  A shallow embedding of the combat engine: \<^verbatim>\<open>Dice.js\<close>, \<^verbatim>\<open>Player.js\<close>,
  \<^verbatim>\<open>Enemy.js\<close>, \<^verbatim>\<open>Item.js\<close>, \<^verbatim>\<open>Merchant.js\<close> and \<^verbatim>\<open>GameManager.js\<close>.

  Conventions.
  \<^item> A JavaScript class is a record, a method is a function that takes the object and
    returns the updated object next to its return value.
  \<^item> JavaScript numbers are binary64 floating-point numbers. Integer quantities (hit
    points, gold, dice values, counters) are \<^typ>\<open>int\<close>: sums, differences and products
    of integers are exact as long as they stay below \<open>2^53\<close>, which is assumed. A number
    with a fractional part is a \<^typ>\<open>rat\<close>, and every operation with such an operand is
    rounded as the hardware rounds it (\<open>round64\<close>, below). \<^verbatim>\<open>Math.floor\<close> is
    \<^const>\<open>floor\<close>.
  \<^item> An optional property of an object is an \<^typ>\<open>'a option\<close>; \<^verbatim>\<open>if (x.f)\<close> on a
    numeric property is \<open>truthy\<close>: present and not zero.
  \<^item> Field names are those of the source, with a prefix where two classes share a name
    (\<open>fx_\<close> for effects, \<open>a_\<close> for enemy actions, \<open>r_\<close> for ability results).
\<close>

subsection \<open>Binary64 arithmetic\<close>

text \<open>
  \<open>round64 x\<close> is the binary64 number nearest to the rational \<open>x\<close>, ties going to the
  even significand: with \<open>2^e \<le> |x| < 2^(e+1)\<close>, the significand has 53 bits and one unit
  in its last place is \<open>2^(e-52)\<close>; below \<open>2^(-1022)\<close> (subnormal numbers) the unit is
  \<open>2^(-1074)\<close>. Overflow to \<^verbatim>\<open>Infinity\<close> (from \<open>2^1024\<close> on) is not modelled. A
  decimal literal \<^verbatim>\<open>0.15\<close> of the source is \<open>round64 (15/100)\<close>, a product
  \<^verbatim>\<open>a * b\<close> is \<open>round64 (a * b)\<close>; literals such as \<^verbatim>\<open>0.5\<close> and \<^verbatim>\<open>2.5\<close>, which
  are binary64 numbers, are written as they are.
\<close>

definition pow2 :: "int \<Rightarrow> rat" where
  "pow2 k = (if 0 \<le> k then 2 ^ nat k else 1 / 2 ^ nat (- k))"

text \<open>The exponent of a positive rational: \<open>pow2 (expo x) \<le> x < pow2 (expo x + 1)\<close>.\<close>

definition expo :: "rat \<Rightarrow> int" where
  "expo x = (let (p, q) = quotient_of x; e = bitlen p - bitlen q
             in if pow2 e \<le> x then e else e - 1)"

text \<open>The nearest integer, a tie going to the even one.\<close>

definition roundEven :: "rat \<Rightarrow> int" where
  "roundEven q = (let f = \<lfloor>q\<rfloor>; d = q - of_int f
                  in if d < 1/2 then f else if 1/2 < d then f + 1 else if even f then f else f + 1)"

definition round64 :: "rat \<Rightarrow> rat" where
  "round64 x = (if x = 0 then 0
                else let ulp = pow2 (max (expo \<bar>x\<bar>) (- 1022) - 52)
                     in sgn x * of_int (roundEven (\<bar>x\<bar> / ulp)) * ulp)"

text \<open>
  \<open>normal x\<close> is \<open>x\<close>, written as a reduced fraction. The equations by which the
  examples are evaluated use it to keep a number in this form between two operations.
\<close>

definition normal :: "rat \<Rightarrow> rat" where
  "normal x = (let (p, q) = quotient_of x in Fract p q)"

subsection \<open>Effects\<close>

text \<open>
  Effects are object literals with a name and a bag of optional numeric properties. The
  record lists the properties that the engine reads; properties that no code reads
  (\<^verbatim>\<open>permanent\<close>, \<^verbatim>\<open>reviveHP\<close>, \<^verbatim>\<open>diceBonus\<close>, ...) are omitted.
\<close>

record effect =
  fx_name :: string
  fx_duration :: "int option"
  fx_damage :: "int option"
  fx_healing :: "int option"
  fx_attack :: "int option"
  fx_bonusAttack :: "int option"
  fx_defense :: "int option"
  fx_bonusDefense :: "int option"
  fx_attackReduction :: "rat option"
  fx_reflectDamage :: "rat option"
  fx_blockDamage :: "int option"
  fx_dodgeChance :: "rat option"
  fx_goldMultiplier :: "rat option"
  fx_healPerTurn :: "int option"
  fx_priceMultiplier :: "rat option"

definition mkEffect :: "string \<Rightarrow> effect" where
  "mkEffect n = \<lparr> fx_name = n, fx_duration = None, fx_damage = None, fx_healing = None,
     fx_attack = None, fx_bonusAttack = None, fx_defense = None, fx_bonusDefense = None,
     fx_attackReduction = None, fx_reflectDamage = None, fx_blockDamage = None,
     fx_dodgeChance = None, fx_goldMultiplier = None, fx_healPerTurn = None,
     fx_priceMultiplier = None \<rparr>"

definition truthy :: "'a::zero option \<Rightarrow> bool" where
  "truthy x = (case x of None \<Rightarrow> False | Some v \<Rightarrow> v \<noteq> 0)"

definition orZero :: "'a::zero option \<Rightarrow> 'a" where
  "orZero x = (case x of None \<Rightarrow> 0 | Some v \<Rightarrow> v)"

text \<open>
  The duration pass shared by \<^verbatim>\<open>Player.updateEffects\<close> and the second half of
  \<^verbatim>\<open>Enemy.updateEffects\<close>:
  \<^verbatim>\<open>effects.filter(e => { if (e.duration !== undefined) { e.duration--; return e.duration > 0; } return true; })\<close>
\<close>

fun decayEffects :: "effect list \<Rightarrow> effect list" where
  "decayEffects [] = []"
| "decayEffects (x # xs) =
     (case fx_duration x of
        None \<Rightarrow> x # decayEffects xs
      | Some d \<Rightarrow> if d - 1 > 0 then x\<lparr>fx_duration := Some (d - 1)\<rparr> # decayEffects xs
                 else decayEffects xs)"

subsection \<open>Actors: the fields shared by Player and Enemy\<close>

record actor =
  maxHP :: int
  currentHP :: int
  effects :: "effect list"

definition addEffect :: "effect \<Rightarrow> 'a actor_scheme \<Rightarrow> 'a actor_scheme" where
  "addEffect x a = a\<lparr>effects := effects a @ [x]\<rparr>"

definition removeEffect :: "string \<Rightarrow> 'a actor_scheme \<Rightarrow> 'a actor_scheme" where
  "removeEffect n a = a\<lparr>effects := filter (\<lambda>x. fx_name x \<noteq> n) (effects a)\<rparr>"

definition hasEffect :: "string \<Rightarrow> 'a actor_scheme \<Rightarrow> bool" where
  "hasEffect n a = (\<exists>x \<in> set (effects a). fx_name x = n)"

definition isAlive :: "'a actor_scheme \<Rightarrow> bool" where
  "isAlive a = (currentHP a > 0)"

text \<open>\<^verbatim>\<open>heal(amount)\<close> is the same code in both classes.\<close>

definition heal :: "int \<Rightarrow> 'a actor_scheme \<Rightarrow> int \<times> 'a actor_scheme" where
  "heal amount a =
     (let actualHeal = min amount (maxHP a - currentHP a)
      in (actualHeal, a\<lparr>currentHP := min (maxHP a) (currentHP a + actualHeal)\<rparr>))"

text \<open>The invariant of the spec: hit points stay within \<open>[0, maxHP]\<close>.\<close>

definition hp_ok :: "'a actor_scheme \<Rightarrow> bool" where
  "hp_ok a = (0 \<le> currentHP a \<and> currentHP a \<le> maxHP a)"

subsection \<open>Enemy\<close>

datatype enemyType = Minion | Elite | Boss

datatype minionKind =
    Goblin | Skeleton | Rat | Bat | Slime | Zombie | Wolf | Spider | Bandit | Cultist
  | Imp | Ghost | Wisp | Mushroom | Crab | Snake | Scorpion | Harpy | Gremlin | Shadowling
  | FireElemental | IceElemental | WindElemental | EarthElemental | CorruptedKnight

datatype eliteKind =
    StoneGolem | DarkMage | Berserker | Necromancer | Assassin | Warlock | Vampire
  | Werewolf | Minotaur | Hydra | Phoenix | FrostGiant | DemonLord | DragonKnight | Lich

datatype bossKind =
    Dragon | DemonKing | AncientLich | TitanGolem | VoidLord | Archmage | DarkOverlord
  | CelestialBeing | EldritchHorror | PrimordialBeast

datatype archetype = MinionK minionKind | EliteK eliteKind | BossK bossKind

text \<open>
  \<^verbatim>\<open>enemy.behavior\<close> is a closure installed by the factory; the record stores which
  one (\<open>None\<close> for the constructor's \<^verbatim>\<open>null\<close>), and \<open>behave\<close> below runs it.
  \<open>hasSplit\<close>, \<open>hasRevived\<close> and \<open>phase\<close> are the properties that single archetypes
  add to their object; an absent one reads as \<open>False\<close> or \<open>0\<close>.
\<close>

record enemy = actor +
  ename :: string
  etype :: enemyType
  baseAttack :: int
  attack :: int
  defense :: int
  behavior :: "archetype option"
  turnCounter :: int
  chargeCounter :: int
  specialCooldown :: int
  goldReward :: int
  hasSplit :: bool
  hasRevived :: bool
  phase :: int

definition calculateGoldReward :: "enemyType \<Rightarrow> int" where
  "calculateGoldReward t = (case t of Minion \<Rightarrow> 10 | Elite \<Rightarrow> 25 | Boss \<Rightarrow> 50)"

definition Enemy_new :: "string \<Rightarrow> enemyType \<Rightarrow> int \<Rightarrow> int \<Rightarrow> int \<Rightarrow> enemy" where
  "Enemy_new n t hp atk df =
     \<lparr> maxHP = hp, currentHP = hp, effects = [],
       ename = n, etype = t, baseAttack = atk, attack = atk, defense = df,
       behavior = None, turnCounter = 0, chargeCounter = 0, specialCooldown = 0,
       goldReward = calculateGoldReward t,
       hasSplit = False, hasRevived = False, phase = 0 \<rparr>"

definition Enemy_takeDamage :: "int \<Rightarrow> enemy \<Rightarrow> int \<times> enemy" where
  "Enemy_takeDamage amount e =
     (let actualDamage = max 0 (amount - defense e)
      in (actualDamage, e\<lparr>currentHP := max 0 (currentHP e - actualDamage)\<rparr>))"

text \<open>
  \<^verbatim>\<open>Enemy.updateEffects\<close>: first every effect's damage and healing, in list order,
  then the duration pass.
\<close>

definition Enemy_tickEffect :: "effect \<Rightarrow> enemy \<Rightarrow> enemy" where
  "Enemy_tickEffect x e =
     (let e1 = (if truthy (fx_damage x) then snd (Enemy_takeDamage (orZero (fx_damage x)) e) else e)
      in if truthy (fx_healing x) then snd (heal (orZero (fx_healing x)) e1) else e1)"

definition Enemy_updateEffects :: "enemy \<Rightarrow> enemy" where
  "Enemy_updateEffects e =
     (let e1 = fold Enemy_tickEffect (effects e) e
      in e1\<lparr>effects := decayEffects (effects e1)\<rparr>)"

subsection \<open>Dice\<close>

datatype faceType = FAttack | FDefense | FCrit | FMagic | FSpecial

record diceFace =
  f_type :: faceType
  f_value :: int
  f_symbol :: "string option"

record dice =
  d_id :: string
  faces :: "diceFace list"
  currentFace :: "diceFace option"
  isRolled :: bool

definition getFaceValue :: "dice \<Rightarrow> int" where
  "getFaceValue d = (case currentFace d of Some f \<Rightarrow> f_value f | None \<Rightarrow> 0)"

definition getFaceType :: "dice \<Rightarrow> faceType option" where
  "getFaceType d = (case currentFace d of Some f \<Rightarrow> Some (f_type f) | None \<Rightarrow> None)"

definition getFaceSymbol :: "dice \<Rightarrow> string option" where
  "getFaceSymbol d = (case currentFace d of Some f \<Rightarrow> f_symbol f | None \<Rightarrow> None)"

text \<open>\<^verbatim>\<open>specialDice.filter(d => d.getFaceSymbol() === s).length\<close>\<close>

definition countSymbol :: "string \<Rightarrow> dice list \<Rightarrow> int" where
  "countSymbol s ds = int (length (filter (\<lambda>d. getFaceSymbol d = Some s) ds))"

subsection \<open>Player\<close>

datatype className =
    BladeDancer | Geomancer | ShadowPriest | Pyromantic | FrostWeaver | StormCaller
  | NatureShaman | BloodKnight | HolyPaladin | ChaosMage | TimeWeaver | SpiritSummoner

text \<open>
  \<^verbatim>\<open>specialCounters\<close> is an object whose properties depend on the class
  (\<^verbatim>\<open>initializeClassCounters\<close>); a property the class does not have is \<open>None\<close>.
  Such a property is only ever read in \<^verbatim>\<open>specialCounters.divineShield > 0\<close>, which is
  false for \<^verbatim>\<open>undefined\<close>, as it is for the \<open>0\<close> that \<open>orZero\<close> reads.
\<close>

record specialCounters =
  momentum :: "int option"
  earthCount :: "int option"
  stoneCount :: "int option"
  crystalCount :: "int option"
  darknessStacks :: "int option"
  voidPower :: "int option"
  flameStacks :: "int option"
  burnDamage :: "int option"
  frostStacks :: "int option"
  chillDuration :: "int option"
  lightningCharge :: "int option"
  windStacks :: "int option"
  growthStacks :: "int option"
  healingPower :: "int option"
  bloodStacks :: "int option"
  lifeSteal :: "int option"
  holyPower :: "int option"
  divineShield :: "int option"
  chaosStacks :: "int option"
  wildMagic :: "int option"
  timeStacks :: "int option"
  hasteEffect :: "int option"
  spiritCount :: "int option"
  summonPower :: "int option"

definition noCounters :: specialCounters where
  "noCounters = \<lparr> momentum = None, earthCount = None, stoneCount = None, crystalCount = None,
     darknessStacks = None, voidPower = None, flameStacks = None, burnDamage = None,
     frostStacks = None, chillDuration = None, lightningCharge = None, windStacks = None,
     growthStacks = None, healingPower = None, bloodStacks = None, lifeSteal = None,
     holyPower = None, divineShield = None, chaosStacks = None, wildMagic = None,
     timeStacks = None, hasteEffect = None, spiritCount = None, summonPower = None \<rparr>"

fun initializeClassCounters :: "className \<Rightarrow> specialCounters" where
  "initializeClassCounters BladeDancer = noCounters\<lparr>momentum := Some 0\<rparr>"
| "initializeClassCounters Geomancer =
     noCounters\<lparr>earthCount := Some 0, stoneCount := Some 0, crystalCount := Some 0\<rparr>"
| "initializeClassCounters ShadowPriest = noCounters\<lparr>darknessStacks := Some 0, voidPower := Some 0\<rparr>"
| "initializeClassCounters Pyromantic = noCounters\<lparr>flameStacks := Some 0, burnDamage := Some 0\<rparr>"
| "initializeClassCounters FrostWeaver = noCounters\<lparr>frostStacks := Some 0, chillDuration := Some 0\<rparr>"
| "initializeClassCounters StormCaller = noCounters\<lparr>lightningCharge := Some 0, windStacks := Some 0\<rparr>"
| "initializeClassCounters NatureShaman = noCounters\<lparr>growthStacks := Some 0, healingPower := Some 0\<rparr>"
| "initializeClassCounters BloodKnight = noCounters\<lparr>bloodStacks := Some 0, lifeSteal := Some 0\<rparr>"
| "initializeClassCounters HolyPaladin = noCounters\<lparr>holyPower := Some 0, divineShield := Some 0\<rparr>"
| "initializeClassCounters ChaosMage = noCounters\<lparr>chaosStacks := Some 0, wildMagic := Some 0\<rparr>"
| "initializeClassCounters TimeWeaver = noCounters\<lparr>timeStacks := Some 0, hasteEffect := Some 0\<rparr>"
| "initializeClassCounters SpiritSummoner = noCounters\<lparr>spiritCount := Some 0, summonPower := Some 0\<rparr>"

text \<open>
  The item classes of \<^verbatim>\<open>Item.js\<close>, in the groups of that file. The player's
  \<^verbatim>\<open>items\<close> array holds the items bought.
\<close>

datatype statItem = SharpenedEdge | BlessedBarrier | IronPlate | PowerGauntlets
  | VampiricBlade | BerserkersRage | TurtleShell
datatype healthItem = HealthPotion | GreaterHealthPotion | MaxHealthUpgrade | PhoenixFeather
datatype diceItem = RerollToken | LuckyDie | DiceFaceUpgrade | LoadedDice
datatype critItem = CriticalEdge | SavageBlow | GuaranteedCrit
datatype abilityItem = MagicAmplifier | SymbolCollector | DoubleSymbol
datatype defensiveItem = ThornArmor | ShieldOfFaith | Evasion
datatype utilityItem = GoldMagnet | ExtraGold | MerchantDiscount
datatype comboItem = BalancedBlade | ChaosCrystal | BloodPact | RegenerationRing
  | FocusedMind | TimeWarpAmulet | DragonScale | PoisonVial

datatype item = StatI statItem | HealthI healthItem | DiceI diceItem | CritI critItem
  | AbilityI abilityItem | DefensiveI defensiveItem | UtilityI utilityItem | ComboI comboItem

text \<open>An item on a merchant's shelf: the item and its \<^verbatim>\<open>cost\<close> there.\<close>

record stockItem =
  s_item :: item
  s_cost :: int

text \<open>
  The fields of \<^verbatim>\<open>Player\<close> that the engine uses. The constructor's
  \<^verbatim>\<open>momentum\<close>, \<^verbatim>\<open>unspentSymbols\<close>, \<^verbatim>\<open>consecutiveAttacks\<close> and
  \<^verbatim>\<open>permanentUpgrades\<close> are never read or written again and are left out.
\<close>

record player = actor +
  className :: className
  diceSet :: "dice list"
  gold :: int
  attackBonus :: int
  defenseBonus :: int
  critChance :: int
  critMultiplier :: rat
  items :: "item list"
  rerollsPerRound :: int
  rerollsUsed :: int
  specialCounters :: specialCounters

definition Player_new :: "className \<Rightarrow> dice list \<Rightarrow> player" where
  "Player_new c ds =
     \<lparr> maxHP = 100, currentHP = 100, effects = [],
       className = c, diceSet = ds, gold = 0, attackBonus = 0, defenseBonus = 0,
       critChance = 0, critMultiplier = 2, items = [],
       rerollsPerRound = 0, rerollsUsed = 0,
       specialCounters = initializeClassCounters c \<rparr>"

definition Player_takeDamage :: "int \<Rightarrow> player \<Rightarrow> int \<times> player" where
  "Player_takeDamage amount p =
     (let actualDamage = max 0 amount
      in (actualDamage, p\<lparr>currentHP := max 0 (currentHP p - actualDamage)\<rparr>))"

definition addGold :: "int \<Rightarrow> player \<Rightarrow> player" where
  "addGold amount p = p\<lparr>gold := gold p + amount\<rparr>"

definition spendGold :: "int \<Rightarrow> player \<Rightarrow> bool \<times> player" where
  "spendGold amount p =
     (if gold p \<ge> amount then (True, p\<lparr>gold := gold p - amount\<rparr>) else (False, p))"

text \<open>\<^verbatim>\<open>Player.updateEffects\<close> is the duration pass alone.\<close>

definition Player_updateEffects :: "player \<Rightarrow> player" where
  "Player_updateEffects p = p\<lparr>effects := decayEffects (effects p)\<rparr>"

definition resetRerolls :: "player \<Rightarrow> player" where
  "resetRerolls p = p\<lparr>rerollsUsed := 0\<rparr>"

definition canReroll :: "player \<Rightarrow> bool" where
  "canReroll p = (rerollsUsed p < rerollsPerRound p)"

definition useReroll :: "player \<Rightarrow> bool \<times> player" where
  "useReroll p = (if canReroll p then (True, p\<lparr>rerollsUsed := rerollsUsed p + 1\<rparr>) else (False, p))"

definition getTotalAttackBonus :: "player \<Rightarrow> int" where
  "getTotalAttackBonus p =
     fold (\<lambda>x total.
            (let t1 = (if truthy (fx_attack x) then total + orZero (fx_attack x) else total)
             in if truthy (fx_bonusAttack x) then t1 + orZero (fx_bonusAttack x) else t1))
          (effects p) (attackBonus p)"

definition getTotalDefenseBonus :: "player \<Rightarrow> int" where
  "getTotalDefenseBonus p =
     (let total = fold (\<lambda>x total.
            (let t1 = (if truthy (fx_defense x) then total + orZero (fx_defense x) else total)
             in if truthy (fx_bonusDefense x) then t1 + orZero (fx_bonusDefense x) else t1))
          (effects p) (defenseBonus p)
      in if orZero (divineShield (specialCounters p)) > 0
         then total + orZero (divineShield (specialCounters p)) else total)"

subsection \<open>Class abilities\<close>

text \<open>
  A message is a template literal: text pieces and the numbers spliced in. The emoji that
  open the source's messages are left out.
\<close>

datatype piece = S string | N int

type_synonym message = "piece list"

text \<open>
  The object a passive or a special returns. \<open>r_damage\<close> is the source's \<^verbatim>\<open>damage\<close>
  (it replaces the attack value), \<open>r_selfDamage\<close> the \<^verbatim>\<open>selfDamage\<close> of a Chaos Mage
  passive.
\<close>

record abilityResult =
  r_success :: "bool option"
  r_bonusDamage :: "int option"
  r_damage :: "int option"
  r_bonusDefense :: "int option"
  r_isCrit :: "bool option"
  r_applyEffect :: "effect option"
  r_skipEnemyTurn :: "bool option"
  r_selfDamage :: "int option"
  r_message :: "message option"

definition emptyResult :: abilityResult where
  "emptyResult = \<lparr> r_success = None, r_bonusDamage = None, r_damage = None,
     r_bonusDefense = None, r_isCrit = None, r_applyEffect = None, r_skipEnemyTurn = None,
     r_selfDamage = None, r_message = None \<rparr>"

text \<open>\<^verbatim>\<open>{ success: false }\<close>\<close>

definition failedResult :: abilityResult where
  "failedResult = emptyResult\<lparr>r_success := Some False\<rparr>"

record combatContext =
  c_attackValue :: int
  c_defenseValue :: int
  c_specialDice :: "dice list"
  c_round :: int

text \<open>
  What one engine call takes from outside the engine. The \<open>rnd\<close> fields are the values
  that \<^verbatim>\<open>Math.random()\<close> returns, binary64 numbers from \<open>0\<close> to \<open>1 - 2^(-53)\<close>: each
  call site in the engine runs at most once per call, so there is one field per site
  (\<open>rndRoll i\<close> is the draw for the \<open>i\<close>-th die of a roll). \<open>drawnInventory\<close> is the
  stock that \<^verbatim>\<open>generateInventory\<close> draws from the item catalogue, with the prices the
  merchant sets; how \<^verbatim>\<open>ItemFactory\<close> draws it is not modelled. \<open>today\<close> is
  \<^verbatim>\<open>new Date().toLocaleDateString()\<close>.
\<close>

record environment =
  rndChaosEffect :: rat
  rndChaosBolt :: rat
  rndCrit :: rat
  rndSpawn :: rat
  rndImp :: rat
  rndDodge :: rat
  rndRoll :: "nat \<Rightarrow> rat"
  drawnInventory :: "stockItem list"
  today :: string

text \<open>\<^verbatim>\<open>xs[Math.floor(u * xs.length)]\<close>, \<^verbatim>\<open>undefined\<close> out of range.\<close>

definition pick :: "rat \<Rightarrow> 'a list \<Rightarrow> 'a option" where
  "pick u xs =
     (let i = \<lfloor>round64 (u * of_nat (length xs))\<rfloor>
      in if 0 \<le> i \<and> i < int (length xs) then Some (xs ! nat i) else None)"

definition bladeDancerPassive :: "combatContext \<Rightarrow> player \<Rightarrow> abilityResult \<times> player" where
  "bladeDancerPassive ctx p =
     (let sc = specialCounters p in
      if c_attackValue ctx > 0 then
        (let sc1 = sc\<lparr>momentum := map_option (\<lambda>v. v + 1) (momentum sc)\<rparr>;
             bonusDamage = orZero (momentum sc1)
         in (emptyResult\<lparr>r_bonusDamage := momentum sc1,
               r_message := Some [S ''Momentum +'', N bonusDamage, S '' damage!'']\<rparr>,
             p\<lparr>specialCounters := sc1\<rparr>))
      else (emptyResult, p\<lparr>specialCounters := sc\<lparr>momentum := Some 0\<rparr>\<rparr>))"

definition bladeDancerSpecial :: "combatContext \<Rightarrow> player \<Rightarrow> abilityResult \<times> player" where
  "bladeDancerSpecial ctx p =
     (let critCount = int (length (filter (\<lambda>d. getFaceType d = Some FCrit) (c_specialDice ctx))) in
      if critCount \<ge> 2 then
        (emptyResult\<lparr>r_damage := Some \<lfloor>of_int (c_attackValue ctx) * (3::rat)\<rfloor>,
            r_message := Some [S ''Cyclone Slash! 300% damage!''], r_success := Some True\<rparr>, p)
      else (failedResult, p))"

definition geomancerPassive :: "combatContext \<Rightarrow> player \<Rightarrow> abilityResult \<times> player" where
  "geomancerPassive ctx p =
     (let symbols = map getFaceSymbol (c_specialDice ctx);
          hasEarth = (Some ''earth'' \<in> set symbols);
          hasStone = (Some ''stone'' \<in> set symbols);
          hasCrystal = (Some ''crystal'' \<in> set symbols)
      in if hasEarth \<and> hasStone \<and> hasCrystal then
           (emptyResult\<lparr>r_bonusDamage := Some 10, r_bonusDefense := Some 10,
              r_message := Some [S ''Earthshatter! +10 attack and defense!'']\<rparr>, p)
         else (emptyResult, p))"

definition geomancerSpecial :: "combatContext \<Rightarrow> player \<Rightarrow> abilityResult \<times> player" where
  "geomancerSpecial ctx p =
     (let stoneCount = countSymbol ''stone'' (c_specialDice ctx) in
      if stoneCount \<ge> 1 then
        (emptyResult\<lparr>r_message := Some [S ''Stoneform! +25 defense next round!''],
            r_success := Some True\<rparr>,
         addEffect ((mkEffect ''Stoneform'')\<lparr>fx_defense := Some 25, fx_duration := Some 1\<rparr>) p)
      else (failedResult, p))"

definition shadowPriestPassive :: "combatContext \<Rightarrow> player \<Rightarrow> abilityResult \<times> player" where
  "shadowPriestPassive ctx p =
     (let unspentDarkness = int (length (filter (\<lambda>d. getFaceSymbol d = Some ''darkness''
              \<or> getFaceSymbol d = Some ''void'' \<or> getFaceSymbol d = Some ''shadow'') (c_specialDice ctx)));
          sc = specialCounters p
      in if unspentDarkness > 0 then
           (let sc1 = sc\<lparr>darknessStacks := map_option (\<lambda>v. v + unspentDarkness * 2) (darknessStacks sc)\<rparr>
            in (emptyResult\<lparr>r_message := Some [S ''Deepening Void: +'', N (unspentDarkness * 2),
                     S '' power stored (Total: '', N (orZero (darknessStacks sc1)), S '')'']\<rparr>,
                p\<lparr>specialCounters := sc1\<rparr>))
         else (emptyResult, p))"

definition shadowPriestSpecial :: "combatContext \<Rightarrow> player \<Rightarrow> abilityResult \<times> player" where
  "shadowPriestSpecial ctx p =
     (if orZero (darknessStacks (specialCounters p)) \<ge> 5 then
        (let p1 = snd (Player_takeDamage 5 p);
             bonusDamage = 20 + orZero (darknessStacks (specialCounters p1))
         in (emptyResult\<lparr>r_bonusDamage := Some bonusDamage,
               r_message := Some [S ''Sacrifice! Lost 5 HP, +'', N bonusDamage, S '' damage!''],
               r_success := Some True\<rparr>,
             p1\<lparr>specialCounters := (specialCounters p1)\<lparr>darknessStacks := Some 0\<rparr>\<rparr>))
      else (failedResult, p))"

definition pyromanticPassive :: "combatContext \<Rightarrow> player \<Rightarrow> abilityResult \<times> player" where
  "pyromanticPassive ctx p =
     (let flameCount = countSymbol ''flame'' (c_specialDice ctx); sc = specialCounters p in
      if flameCount > 0 then
        (emptyResult\<lparr>r_bonusDamage := Some (flameCount * 2),
            r_message := Some [S ''Burning Fury: +'', N (flameCount * 2), S '' fire damage!'']\<rparr>,
         p\<lparr>specialCounters := sc\<lparr>flameStacks := map_option (\<lambda>v. v + flameCount) (flameStacks sc)\<rparr>\<rparr>)
      else (emptyResult, p))"

definition pyromanticSpecial :: "combatContext \<Rightarrow> player \<Rightarrow> abilityResult \<times> player" where
  "pyromanticSpecial ctx p =
     (let flameCount = countSymbol ''flame'' (c_specialDice ctx) in
      if flameCount \<ge> 3 then
        (emptyResult\<lparr>r_bonusDamage := Some 40,
            r_message := Some [S ''INFERNO! 40 instant damage + 10 burn damage for 3 rounds!''],
            r_success := Some True,
            r_applyEffect := Some ((mkEffect ''Burn'')\<lparr>fx_damage := Some 10, fx_duration := Some 3\<rparr>)\<rparr>,
         p\<lparr>specialCounters := (specialCounters p)\<lparr>burnDamage := Some 10\<rparr>\<rparr>)
      else (failedResult, p))"

definition frostWeaverPassive :: "combatContext \<Rightarrow> player \<Rightarrow> abilityResult \<times> player" where
  "frostWeaverPassive ctx p =
     (let frostCount = countSymbol ''frost'' (c_specialDice ctx); sc = specialCounters p in
      if frostCount > 0 then
        (emptyResult\<lparr>r_bonusDefense := Some (frostCount * 3),
            r_message := Some [S ''Frost Armor: +'', N (frostCount * 3), S '' defense!'']\<rparr>,
         p\<lparr>specialCounters := sc\<lparr>frostStacks := map_option (\<lambda>v. v + frostCount) (frostStacks sc)\<rparr>\<rparr>)
      else (emptyResult, p))"

definition frostWeaverSpecial :: "combatContext \<Rightarrow> player \<Rightarrow> abilityResult \<times> player" where
  "frostWeaverSpecial ctx p =
     (let frostCount = countSymbol ''frost'' (c_specialDice ctx) in
      if frostCount \<ge> 2 then
        (emptyResult\<lparr>r_message := Some [S ''Frozen Prison! Enemy attack reduced by 50% for 2 rounds!''],
            r_success := Some True,
            r_applyEffect := Some ((mkEffect ''Frozen'')\<lparr>fx_attackReduction := Some (1/2),
                                     fx_duration := Some 2\<rparr>)\<rparr>, p)
      else (failedResult, p))"

definition stormCallerPassive :: "combatContext \<Rightarrow> player \<Rightarrow> abilityResult \<times> player" where
  "stormCallerPassive ctx p =
     (let lightningCount = countSymbol ''lightning'' (c_specialDice ctx); sc = specialCounters p in
      if lightningCount > 0 then
        (emptyResult\<lparr>r_message := Some [S ''Lightning Charge: +'', N (lightningCount * 10),
                                          S ''% crit chance!'']\<rparr>,
         p\<lparr>specialCounters := sc\<lparr>lightningCharge := map_option (\<lambda>v. v + lightningCount) (lightningCharge sc)\<rparr>,
           critChance := critChance p + lightningCount * 10\<rparr>)
      else (emptyResult, p))"

definition stormCallerSpecial :: "combatContext \<Rightarrow> player \<Rightarrow> abilityResult \<times> player" where
  "stormCallerSpecial ctx p =
     (let lightningCount = countSymbol ''lightning'' (c_specialDice ctx) in
      if lightningCount \<ge> 2 then
        (emptyResult\<lparr>r_bonusDamage := Some 35, r_isCrit := Some True,
            r_message := Some [S ''THUNDERSTRIKE! 35 guaranteed critical damage!''],
            r_success := Some True\<rparr>, p)
      else (failedResult, p))"

definition natureShamanPassive :: "combatContext \<Rightarrow> player \<Rightarrow> abilityResult \<times> player" where
  "natureShamanPassive ctx p =
     (let natureCount = countSymbol ''nature'' (c_specialDice ctx) in
      if natureCount > 0 then
        (let healAmount = natureCount * 3 in
         (emptyResult\<lparr>r_message := Some [S ''Nature's Blessing: Healed '', N healAmount, S '' HP!'']\<rparr>,
          snd (heal healAmount p)))
      else (emptyResult, p))"

definition natureShamanSpecial :: "combatContext \<Rightarrow> player \<Rightarrow> abilityResult \<times> player" where
  "natureShamanSpecial ctx p =
     (let natureCount = countSymbol ''nature'' (c_specialDice ctx) in
      if natureCount \<ge> 3 then
        (emptyResult\<lparr>r_message := Some [S ''Wild Growth! Healed '', N 25,
                                          S '' HP + 5 HP regen for 3 rounds!''],
            r_success := Some True\<rparr>,
         addEffect ((mkEffect ''Regeneration'')\<lparr>fx_healing := Some 5, fx_duration := Some 3\<rparr>)
           (snd (heal 25 p)))
      else (failedResult, p))"

definition bloodKnightPassive :: "combatContext \<Rightarrow> player \<Rightarrow> abilityResult \<times> player" where
  "bloodKnightPassive ctx p =
     (let bloodCount = countSymbol ''blood'' (c_specialDice ctx) in
      if bloodCount > 0 \<and> c_attackValue ctx > 0 then
        (let lifeSteal = \<lfloor>round64 (round64 (of_int (c_attackValue ctx) * round64 (3/10)) * of_int bloodCount)\<rfloor> in
         (emptyResult\<lparr>r_message := Some [S ''Blood Pact: Healed '', N lifeSteal,
                                           S '' HP from life steal!'']\<rparr>,
          snd (heal lifeSteal p)))
      else (emptyResult, p))"

definition bloodKnightSpecial :: "combatContext \<Rightarrow> player \<Rightarrow> abilityResult \<times> player" where
  "bloodKnightSpecial ctx p =
     (let bloodCount = countSymbol ''blood'' (c_specialDice ctx) in
      if bloodCount \<ge> 2 then
        (emptyResult\<lparr>r_bonusDamage := Some 50,
            r_message := Some [S ''Blood Sacrifice! Lost '', N 15, S '' HP for '', N 50,
                               S '' extra damage!''],
            r_success := Some True\<rparr>,
         snd (Player_takeDamage 15 p))
      else (failedResult, p))"

definition holyPaladinPassive :: "combatContext \<Rightarrow> player \<Rightarrow> abilityResult \<times> player" where
  "holyPaladinPassive ctx p =
     (let holyCount = countSymbol ''holy'' (c_specialDice ctx); sc = specialCounters p in
      if holyCount > 0 then
        (emptyResult\<lparr>r_bonusDefense := Some (holyCount * 4),
            r_message := Some [S ''Divine Protection: +'', N (holyCount * 4), S '' defense!'']\<rparr>,
         p\<lparr>specialCounters := sc\<lparr>holyPower := map_option (\<lambda>v. v + holyCount) (holyPower sc)\<rparr>\<rparr>)
      else (emptyResult, p))"

definition holyPaladinSpecial :: "combatContext \<Rightarrow> player \<Rightarrow> abilityResult \<times> player" where
  "holyPaladinSpecial ctx p =
     (let holyCount = countSymbol ''holy'' (c_specialDice ctx) in
      if holyCount \<ge> 2 \<and> orZero (holyPower (specialCounters p)) \<ge> 5 then
        (let p1 = snd (heal 20 p) in
         (emptyResult\<lparr>r_message := Some [S ''Divine Shield! Healed '', N 20,
                                           S '' HP + absorb 30 damage!''],
             r_success := Some True\<rparr>,
          p1\<lparr>specialCounters := (specialCounters p1)\<lparr>divineShield := Some 30, holyPower := Some 0\<rparr>\<rparr>))
      else (failedResult, p))"

definition chaosRandomEffects :: "abilityResult list" where
  "chaosRandomEffects =
     [ emptyResult\<lparr>r_bonusDamage := Some 15, r_message := Some [S ''Chaos Surge: +15 damage!'']\<rparr>,
       emptyResult\<lparr>r_bonusDefense := Some 15, r_message := Some [S ''Chaos Ward: +15 defense!'']\<rparr>,
       emptyResult\<lparr>r_bonusDamage := Some 25, r_selfDamage := Some 5,
                   r_message := Some [S ''Wild Magic: +25 damage, -5 HP!'']\<rparr>,
       emptyResult\<lparr>r_bonusDefense := Some 20, r_bonusDamage := Some 10,
                   r_message := Some [S ''Chaos Balance: +10 damage, +20 defense!'']\<rparr> ]"

text \<open>
  The only ability that can throw: with a draw outside \<open>[0, 1)\<close> the effect picked is
  \<^verbatim>\<open>undefined\<close> and reading its \<^verbatim>\<open>selfDamage\<close> is a TypeError (\<open>None\<close>).
\<close>

definition chaosMagePassive ::
  "environment \<Rightarrow> combatContext \<Rightarrow> player \<Rightarrow> (abilityResult \<times> player) option" where
  "chaosMagePassive env ctx p =
     (let chaosCount = countSymbol ''chaos'' (c_specialDice ctx) in
      if chaosCount > 0 then
        (case pick (rndChaosEffect env) chaosRandomEffects of
           None \<Rightarrow> None
         | Some eff \<Rightarrow>
             Some (eff, if truthy (r_selfDamage eff)
                        then snd (Player_takeDamage (orZero (r_selfDamage eff)) p) else p))
      else Some (emptyResult, p))"

definition chaosMageSpecial ::
  "environment \<Rightarrow> combatContext \<Rightarrow> player \<Rightarrow> abilityResult \<times> player" where
  "chaosMageSpecial env ctx p =
     (let chaosCount = countSymbol ''chaos'' (c_specialDice ctx) in
      if chaosCount \<ge> 2 then
        (let randomValue = \<lfloor>round64 (rndChaosBolt env * 60)\<rfloor> + 20 in
         (emptyResult\<lparr>r_bonusDamage := Some randomValue,
             r_message := Some [S ''CHAOS BOLT! '', N randomValue, S '' random damage!''],
             r_success := Some True\<rparr>, p))
      else (failedResult, p))"

definition timeWeaverPassive :: "combatContext \<Rightarrow> player \<Rightarrow> abilityResult \<times> player" where
  "timeWeaverPassive ctx p =
     (let timeCount = countSymbol ''time'' (c_specialDice ctx); sc = specialCounters p in
      if timeCount > 0 then
        (let sc1 = sc\<lparr>timeStacks := map_option (\<lambda>v. v + timeCount) (timeStacks sc)\<rparr> in
         (emptyResult\<lparr>r_message := Some [S ''Time Dilation: Stored '', N timeCount,
               S '' time stacks (Total: '', N (orZero (timeStacks sc1)), S '')'']\<rparr>,
          p\<lparr>specialCounters := sc1\<rparr>))
      else (emptyResult, p))"

definition timeWeaverSpecial :: "combatContext \<Rightarrow> player \<Rightarrow> abilityResult \<times> player" where
  "timeWeaverSpecial ctx p =
     (let timeCount = countSymbol ''time'' (c_specialDice ctx) in
      if timeCount \<ge> 3 \<and> orZero (timeStacks (specialCounters p)) \<ge> 6 then
        (emptyResult\<lparr>r_message := Some [S ''TIME WARP! +10 attack and defense for 2 rounds + enemy skip next turn!''],
            r_success := Some True, r_skipEnemyTurn := Some True\<rparr>,
         addEffect ((mkEffect ''Haste'')\<lparr>fx_bonusAttack := Some 10, fx_bonusDefense := Some 10,
                                          fx_duration := Some 2\<rparr>)
           (p\<lparr>specialCounters := (specialCounters p)\<lparr>timeStacks := Some 0\<rparr>\<rparr>))
      else (failedResult, p))"

definition spiritSummonerPassive :: "combatContext \<Rightarrow> player \<Rightarrow> abilityResult \<times> player" where
  "spiritSummonerPassive ctx p =
     (let spiritCnt = countSymbol ''spirit'' (c_specialDice ctx); sc = specialCounters p in
      if spiritCnt > 0 then
        (let sc1 = sc\<lparr>spiritCount := map_option (\<lambda>v. v + spiritCnt) (spiritCount sc)\<rparr> in
         (emptyResult\<lparr>r_bonusDamage := map_option (\<lambda>v. v * 2) (spiritCount sc1),
             r_message := Some [S ''Spirit Power: +'', N (orZero (spiritCount sc1) * 2),
               S '' damage from '', N (orZero (spiritCount sc1)), S '' spirits!'']\<rparr>,
          p\<lparr>specialCounters := sc1\<rparr>))
      else (emptyResult, p))"

definition spiritSummonerSpecial :: "combatContext \<Rightarrow> player \<Rightarrow> abilityResult \<times> player" where
  "spiritSummonerSpecial ctx p =
     (let spiritCnt = countSymbol ''spirit'' (c_specialDice ctx) in
      if spiritCnt \<ge> 3 then
        (emptyResult\<lparr>r_bonusDamage := Some 30,
            r_message := Some [S ''SPIRIT GUARDIAN! 30 damage + summon guardian (+8 attack, +15 defense for 2 rounds)!''],
            r_success := Some True\<rparr>,
         addEffect ((mkEffect ''Spirit Guardian'')\<lparr>fx_defense := Some 15, fx_attack := Some 8,
                                                    fx_duration := Some 2\<rparr>) p)
      else (failedResult, p))"

text \<open>The dispatch tables of \<^verbatim>\<open>applyPassiveAbility\<close> and \<^verbatim>\<open>activateSpecial\<close>.\<close>

definition applyPassiveAbility ::
  "environment \<Rightarrow> combatContext \<Rightarrow> player \<Rightarrow> (abilityResult \<times> player) option" where
  "applyPassiveAbility env ctx p =
     (case className p of
        BladeDancer \<Rightarrow> Some (bladeDancerPassive ctx p)
      | Geomancer \<Rightarrow> Some (geomancerPassive ctx p)
      | ShadowPriest \<Rightarrow> Some (shadowPriestPassive ctx p)
      | Pyromantic \<Rightarrow> Some (pyromanticPassive ctx p)
      | FrostWeaver \<Rightarrow> Some (frostWeaverPassive ctx p)
      | StormCaller \<Rightarrow> Some (stormCallerPassive ctx p)
      | NatureShaman \<Rightarrow> Some (natureShamanPassive ctx p)
      | BloodKnight \<Rightarrow> Some (bloodKnightPassive ctx p)
      | HolyPaladin \<Rightarrow> Some (holyPaladinPassive ctx p)
      | ChaosMage \<Rightarrow> chaosMagePassive env ctx p
      | TimeWeaver \<Rightarrow> Some (timeWeaverPassive ctx p)
      | SpiritSummoner \<Rightarrow> Some (spiritSummonerPassive ctx p))"

definition activateSpecial ::
  "environment \<Rightarrow> combatContext \<Rightarrow> player \<Rightarrow> abilityResult \<times> player" where
  "activateSpecial env ctx p =
     (case className p of
        BladeDancer \<Rightarrow> bladeDancerSpecial ctx p
      | Geomancer \<Rightarrow> geomancerSpecial ctx p
      | ShadowPriest \<Rightarrow> shadowPriestSpecial ctx p
      | Pyromantic \<Rightarrow> pyromanticSpecial ctx p
      | FrostWeaver \<Rightarrow> frostWeaverSpecial ctx p
      | StormCaller \<Rightarrow> stormCallerSpecial ctx p
      | NatureShaman \<Rightarrow> natureShamanSpecial ctx p
      | BloodKnight \<Rightarrow> bloodKnightSpecial ctx p
      | HolyPaladin \<Rightarrow> holyPaladinSpecial ctx p
      | ChaosMage \<Rightarrow> chaosMageSpecial env ctx p
      | TimeWeaver \<Rightarrow> timeWeaverSpecial ctx p
      | SpiritSummoner \<Rightarrow> spiritSummonerSpecial ctx p)"

subsection \<open>Enemy behaviour\<close>

datatype actionType = AttackA | HealA | DefendA | ReviveA

record action =
  a_type :: actionType
  a_value :: "int option"
  a_message :: "string option"
  a_poison :: "int option"
  a_burn :: "int option"
  a_lifeSteal :: "rat option"

definition mkAction :: "actionType \<Rightarrow> int \<Rightarrow> action" where
  "mkAction t v = \<lparr> a_type = t, a_value = Some v, a_message = None, a_poison = None,
     a_burn = None, a_lifeSteal = None \<rparr>"

text \<open>\<^verbatim>\<open>{ type: 'attack', value: v }\<close> and \<^verbatim>\<open>{ type: 'attack', value: v, message: m }\<close>\<close>

definition attackWith :: "int \<Rightarrow> action" where
  "attackWith v = mkAction AttackA v"

definition attackMsg :: "int \<Rightarrow> string \<Rightarrow> action" where
  "attackMsg v m = (mkAction AttackA v)\<lparr>a_message := Some m\<rparr>"

text \<open>\<^verbatim>\<open>Math.floor(a * q)\<close> for an integer \<open>a\<close> and the decimal literal \<open>q\<close>.\<close>

definition floorMul :: "int \<Rightarrow> rat \<Rightarrow> int" where
  "floorMul a q = \<lfloor>round64 (of_int a * round64 q)\<rfloor>"

text \<open>
  \<^verbatim>\<open>getHPPercentage() < t\<close>, where \<^verbatim>\<open>getHPPercentage\<close> is
  \<^verbatim>\<open>(currentHP / maxHP) * 100\<close>. With \<^verbatim>\<open>maxHP = 0\<close> the quotient is \<^verbatim>\<open>Infinity\<close>,
  \<^verbatim>\<open>NaN\<close> or \<^verbatim>\<open>-Infinity\<close>, and only the last one is below \<open>t\<close>.
\<close>

definition hpPercentageBelow :: "rat \<Rightarrow> 'a actor_scheme \<Rightarrow> bool" where
  "hpPercentageBelow t a =
     (if maxHP a = 0 then currentHP a < 0
      else round64 (round64 (of_int (currentHP a) / of_int (maxHP a)) * 100) < t)"

fun minionBehavior :: "minionKind \<Rightarrow> environment \<Rightarrow> enemy \<Rightarrow> action \<times> enemy" where
  "minionBehavior Goblin env self = (attackWith (attack self), self)"
| "minionBehavior Skeleton env self = (attackWith (attack self), self)"
| "minionBehavior Rat env self = (attackWith (attack self), self)"
| "minionBehavior Bat env self = ((attackWith (attack self))\<lparr>a_lifeSteal := Some (round64 (3/10))\<rparr>, self)"
| "minionBehavior Slime env self =
     (if hpPercentageBelow 30 self \<and> \<not> hasSplit self
      then (mkAction HealA 10, self\<lparr>hasSplit := True\<rparr>)
      else (attackWith (attack self), self))"
| "minionBehavior Zombie env self = (attackWith (attack self), self)"
| "minionBehavior Wolf env self =
     (if turnCounter self mod 2 = 0
      then (attackMsg (floorMul (attack self) (3/2)) ''Savage Bite!'', self)
      else (attackWith (attack self), self))"
| "minionBehavior Spider env self =
     (if turnCounter self mod 3 = 0
      then ((attackMsg (attack self) ''Poison Bite!'')\<lparr>a_poison := Some 3\<rparr>, self)
      else (attackWith (attack self), self))"
| "minionBehavior Bandit env self = (attackWith (attack self), self)"
| "minionBehavior Cultist env self =
     (let self1 = self\<lparr>chargeCounter := chargeCounter self + 1\<rparr> in
      if chargeCounter self1 \<ge> 3
      then (attackMsg (attack self1 * 2) ''Dark Ritual!'', self1\<lparr>chargeCounter := 0\<rparr>)
      else (attackMsg (floorMul (attack self1) (1/2)) ''Charging...'', self1))"
| "minionBehavior Imp env self =
     (let variance = \<lfloor>round64 (rndImp env * 6)\<rfloor> - 3
      in (attackWith (attack self + variance), self))"
| "minionBehavior Ghost env self =
     (if turnCounter self mod 4 = 0
      then ((mkAction DefendA 10)\<lparr>a_message := Some ''Ethereal Form''\<rparr>, self)
      else (attackWith (attack self), self))"
| "minionBehavior Wisp env self = (attackWith (attack self), self)"
| "minionBehavior Mushroom env self = ((attackWith (attack self))\<lparr>a_poison := Some 2\<rparr>, self)"
| "minionBehavior Crab env self = (attackWith (attack self), self)"
| "minionBehavior Snake env self =
     (if turnCounter self mod 2 = 0
      then ((attackMsg (attack self) ''Venomous Strike!'')\<lparr>a_poison := Some 4\<rparr>, self)
      else (attackWith (attack self), self))"
| "minionBehavior Scorpion env self = ((attackWith (attack self))\<lparr>a_poison := Some 2\<rparr>, self)"
| "minionBehavior Harpy env self =
     (if turnCounter self mod 3 = 0
      then (attackMsg (floorMul (attack self) (16/10)) ''Dive Bomb!'', self)
      else (attackWith (attack self), self))"
| "minionBehavior Gremlin env self = (attackWith (attack self), self)"
| "minionBehavior Shadowling env self = (attackWith (attack self), self)"
| "minionBehavior FireElemental env self = ((attackWith (attack self))\<lparr>a_burn := Some 2\<rparr>, self)"
| "minionBehavior IceElemental env self = (attackWith (attack self), self)"
| "minionBehavior WindElemental env self = (attackWith (attack self), self)"
| "minionBehavior EarthElemental env self = (attackWith (attack self), self)"
| "minionBehavior CorruptedKnight env self = (attackWith (attack self), self)"

fun eliteBehavior :: "eliteKind \<Rightarrow> enemy \<Rightarrow> action \<times> enemy" where
  "eliteBehavior StoneGolem self =
     (if turnCounter self mod 3 = 0
      then (attackMsg (floorMul (attack self) 2) ''Boulder Smash!'', self)
      else (attackWith (attack self), self))"
| "eliteBehavior DarkMage self =
     (if turnCounter self mod 2 = 0
      then (attackMsg (floorMul (attack self) (13/10)) ''Dark Blast!'', self)
      else (attackMsg (attack self) ''Curse!'', self))"
| "eliteBehavior Berserker self =
     (let rageBonus = (if hpPercentageBelow 50 self then floorMul (attack self) (1/2) else 0)
      in (attackWith (attack self + rageBonus), self))"
| "eliteBehavior Necromancer self =
     (if turnCounter self mod 4 = 0
      then ((mkAction HealA 20)\<lparr>a_message := Some ''Death Siphon!''\<rparr>, self)
      else (attackWith (attack self), self))"
| "eliteBehavior Assassin self =
     (if turnCounter self mod 3 = 0
      then (attackMsg (floorMul (attack self) (18/10)) ''Backstab!'', self)
      else (attackWith (attack self), self))"
| "eliteBehavior Warlock self =
     (if turnCounter self mod 2 = 0
      then ((attackMsg (attack self) ''Curse of Pain!'')\<lparr>a_poison := Some 5\<rparr>, self)
      else (attackWith (attack self), self))"
| "eliteBehavior Vampire self = ((attackWith (attack self))\<lparr>a_lifeSteal := Some (1/2)\<rparr>, self)"
| "eliteBehavior Werewolf self =
     (if turnCounter self mod 3 = 0
      then (attackMsg (floorMul (attack self) (17/10)) ''Feral Frenzy!'', self)
      else (attackWith (attack self), self))"
| "eliteBehavior Minotaur self =
     (let self1 = self\<lparr>chargeCounter := chargeCounter self + 1\<rparr> in
      if chargeCounter self1 \<ge> 3
      then (attackMsg (floorMul (attack self1) (5/2)) ''CHARGE!'', self1\<lparr>chargeCounter := 0\<rparr>)
      else (attackWith (attack self1), self1))"
| "eliteBehavior Hydra self =
     (attackMsg (floorMul (attack self) (3/2)) ''Multiple heads strike!'', self)"
| "eliteBehavior Phoenix self =
     (if currentHP self \<le> 0 \<and> \<not> hasRevived self
      then (\<lparr> a_type = ReviveA, a_value = None, a_message = Some ''Phoenix rises from ashes!'',
              a_poison = None, a_burn = None, a_lifeSteal = None \<rparr>,
            self\<lparr>hasRevived := True, currentHP := floorMul (maxHP self) (1/2)\<rparr>)
      else ((attackWith (attack self))\<lparr>a_burn := Some 3\<rparr>, self))"
| "eliteBehavior FrostGiant self =
     (if turnCounter self mod 3 = 0
      then (attackMsg (floorMul (attack self) (18/10)) ''Glacial Slam!'', self)
      else (attackWith (attack self), self))"
| "eliteBehavior DemonLord self =
     (if turnCounter self mod 2 = 0
      then (attackMsg (floorMul (attack self) (3/2)) ''Hellfire!'', self)
      else (attackWith (attack self), self))"
| "eliteBehavior DragonKnight self =
     (if turnCounter self mod 4 = 0
      then ((attackMsg (floorMul (attack self) 2) ''Dragon Breath!'')\<lparr>a_burn := Some 5\<rparr>, self)
      else (attackWith (attack self), self))"
| "eliteBehavior Lich self =
     (if turnCounter self mod 3 = 0
      then ((mkAction HealA 15)\<lparr>a_message := Some ''Life Drain!''\<rparr>, self)
      else ((attackWith (attack self))\<lparr>a_poison := Some 4\<rparr>, self))"

text \<open>
  The Archmage indexes its spell list with \<^verbatim>\<open>turnCounter % 4\<close>; the counter is never
  negative, where JavaScript's remainder would differ from \<open>mod\<close>.
\<close>

definition archmageSpells :: "string list" where
  "archmageSpells = [''Fireball'', ''Lightning'', ''Ice Storm'', ''Arcane Missiles'']"

fun bossBehavior :: "bossKind \<Rightarrow> enemy \<Rightarrow> action \<times> enemy" where
  "bossBehavior Dragon self =
     (if hpPercentageBelow 50 self \<and> phase self = 1
      then ((attackMsg (floorMul (attack self) 3) ''MEGA DRAGON BREATH!'')\<lparr>a_burn := Some 10\<rparr>,
            self\<lparr>phase := 2\<rparr>)
      else if turnCounter self mod 3 = 0
      then ((attackMsg (floorMul (attack self) 2) ''Dragon Breath!'')\<lparr>a_burn := Some 5\<rparr>, self)
      else (attackWith (attack self), self))"
| "bossBehavior DemonKing self =
     (if turnCounter self mod 4 = 0
      then (attackMsg (floorMul (attack self) (5/2)) ''Infernal Judgment!'', self)
      else (attackWith (attack self), self))"
| "bossBehavior AncientLich self =
     (if turnCounter self mod 3 = 0
      then ((mkAction HealA 25)\<lparr>a_message := Some ''Soul Harvest!''\<rparr>, self)
      else ((attackWith (attack self))\<lparr>a_poison := Some 6\<rparr>, self))"
| "bossBehavior TitanGolem self =
     (let self1 = self\<lparr>chargeCounter := chargeCounter self + 1\<rparr> in
      if chargeCounter self1 \<ge> 4
      then (attackMsg (floorMul (attack self1) (7/2)) ''EARTHQUAKE!'', self1\<lparr>chargeCounter := 0\<rparr>)
      else (attackWith (attack self1), self1))"
| "bossBehavior VoidLord self =
     (if turnCounter self mod 2 = 0
      then (attackMsg (floorMul (attack self) (18/10)) ''Void Blast!'', self)
      else (attackWith (attack self), self))"
| "bossBehavior Archmage self =
     (let spell = archmageSpells ! nat (turnCounter self mod 4)
      in (attackMsg (floorMul (attack self) (3/2)) (spell @ ''!''), self))"
| "bossBehavior DarkOverlord self =
     (if turnCounter self mod 5 = 0
      then (attackMsg (floorMul (attack self) 3) ''DARK OBLITERATION!'', self)
      else (attackWith (attack self), self))"
| "bossBehavior CelestialBeing self =
     (if turnCounter self mod 3 = 0
      then ((mkAction HealA 20)\<lparr>a_message := Some ''Divine Regeneration!''\<rparr>, self)
      else (attackWith (attack self), self))"
| "bossBehavior EldritchHorror self =
     (if turnCounter self mod 4 = 0
      then ((attackMsg (floorMul (attack self) (5/2)) ''Maddening Gaze!'')\<lparr>a_poison := Some 8\<rparr>, self)
      else (attackWith (attack self), self))"
| "bossBehavior PrimordialBeast self =
     (if hpPercentageBelow 30 self
      then (attackMsg (floorMul (attack self) (5/2)) ''Primal Rage!'', self)
      else if turnCounter self mod 3 = 0
      then (attackMsg (floorMul (attack self) (18/10)) ''Savage Roar!'', self)
      else (attackWith (attack self), self))"

fun behave :: "archetype \<Rightarrow> environment \<Rightarrow> enemy \<Rightarrow> action \<times> enemy" where
  "behave (MinionK k) env self = minionBehavior k env self"
| "behave (EliteK k) env self = eliteBehavior k self"
| "behave (BossK k) env self = bossBehavior k self"

definition getNextAction :: "environment \<Rightarrow> enemy \<Rightarrow> action \<times> enemy" where
  "getNextAction env e =
     (case behavior e of
        Some b \<Rightarrow> behave b env e
      | None \<Rightarrow> (attackWith (attack e), e))"

text \<open>
  \<^verbatim>\<open>executeAction\<close>: count the turn, ask the behaviour, then apply the attack reduction
  of the first effect named Frozen.
\<close>

definition executeAction :: "environment \<Rightarrow> enemy \<Rightarrow> action \<times> enemy" where
  "executeAction env e =
     (let (act, e1) = getNextAction env (e\<lparr>turnCounter := turnCounter e + 1\<rparr>)
      in if a_type act = AttackA \<and> hasEffect ''Frozen'' e1 then
           (case find (\<lambda>x. fx_name x = ''Frozen'') (effects e1) of
              Some frozenEffect \<Rightarrow>
                if truthy (fx_attackReduction frozenEffect)
                then (act\<lparr>a_value := map_option
                         (\<lambda>v. \<lfloor>round64 (of_int v * round64 (1 - orZero (fx_attackReduction frozenEffect)))\<rfloor>)
                         (a_value act)\<rparr>, e1)
                else (act, e1)
            | None \<Rightarrow> (act, e1))
         else (act, e1))"

subsection \<open>Enemy factory\<close>

definition scaleStats :: "int \<Rightarrow> int \<Rightarrow> int \<Rightarrow> int \<times> int" where
  "scaleStats baseHP baseAtk roundNumber =
     (let multiplier = round64 (1 + round64 (of_int roundNumber * round64 (15/100)))
      in (\<lfloor>round64 (of_int baseHP * multiplier)\<rfloor>, \<lfloor>round64 (of_int baseAtk * multiplier)\<rfloor>))"

definition createGoblin :: "int \<Rightarrow> enemy" where
  "createGoblin roundNumber =
     (let stats = scaleStats 30 8 roundNumber
      in (Enemy_new ''Goblin'' Minion (fst stats) (snd stats) 0)\<lparr>behavior := Some (MinionK Goblin)\<rparr>)"

definition createSkeleton :: "int \<Rightarrow> enemy" where
  "createSkeleton roundNumber =
     (let stats = scaleStats 25 10 roundNumber
      in (Enemy_new ''Skeleton'' Minion (fst stats) (snd stats) 2)\<lparr>behavior := Some (MinionK Skeleton)\<rparr>)"

definition createRat :: "int \<Rightarrow> enemy" where
  "createRat roundNumber =
     (let stats = scaleStats 20 6 roundNumber
      in (Enemy_new ''Giant Rat'' Minion (fst stats) (snd stats) 0)\<lparr>behavior := Some (MinionK Rat)\<rparr>)"

definition createBat :: "int \<Rightarrow> enemy" where
  "createBat roundNumber =
     (let stats = scaleStats 22 7 roundNumber
      in (Enemy_new ''Vampire Bat'' Minion (fst stats) (snd stats) 0)\<lparr>behavior := Some (MinionK Bat)\<rparr>)"

definition createSlime :: "int \<Rightarrow> enemy" where
  "createSlime roundNumber =
     (let stats = scaleStats 35 5 roundNumber
      in (Enemy_new ''Slime'' Minion (fst stats) (snd stats) 1)\<lparr>behavior := Some (MinionK Slime)\<rparr>)"

definition createZombie :: "int \<Rightarrow> enemy" where
  "createZombie roundNumber =
     (let stats = scaleStats 40 9 roundNumber
      in (Enemy_new ''Zombie'' Minion (fst stats) (snd stats) 1)\<lparr>behavior := Some (MinionK Zombie)\<rparr>)"

definition createWolf :: "int \<Rightarrow> enemy" where
  "createWolf roundNumber =
     (let stats = scaleStats 28 11 roundNumber
      in (Enemy_new ''Dire Wolf'' Minion (fst stats) (snd stats) 0)\<lparr>behavior := Some (MinionK Wolf)\<rparr>)"

definition createSpider :: "int \<Rightarrow> enemy" where
  "createSpider roundNumber =
     (let stats = scaleStats 26 8 roundNumber
      in (Enemy_new ''Giant Spider'' Minion (fst stats) (snd stats) 1)\<lparr>behavior := Some (MinionK Spider)\<rparr>)"

definition createBandit :: "int \<Rightarrow> enemy" where
  "createBandit roundNumber =
     (let stats = scaleStats 32 10 roundNumber
      in (Enemy_new ''Bandit'' Minion (fst stats) (snd stats) 0)\<lparr>behavior := Some (MinionK Bandit)\<rparr>)"

definition createCultist :: "int \<Rightarrow> enemy" where
  "createCultist roundNumber =
     (let stats = scaleStats 27 7 roundNumber
      in (Enemy_new ''Cultist'' Minion (fst stats) (snd stats) 0)\<lparr>behavior := Some (MinionK Cultist), chargeCounter := 0\<rparr>)"

definition createImp :: "int \<Rightarrow> enemy" where
  "createImp roundNumber =
     (let stats = scaleStats 24 9 roundNumber
      in (Enemy_new ''Imp'' Minion (fst stats) (snd stats) 0)\<lparr>behavior := Some (MinionK Imp)\<rparr>)"

definition createGhost :: "int \<Rightarrow> enemy" where
  "createGhost roundNumber =
     (let stats = scaleStats 23 8 roundNumber
      in (Enemy_new ''Ghost'' Minion (fst stats) (snd stats) 0)\<lparr>behavior := Some (MinionK Ghost)\<rparr>)"

definition createWisp :: "int \<Rightarrow> enemy" where
  "createWisp roundNumber =
     (let stats = scaleStats 20 7 roundNumber
      in (Enemy_new ''Wisp'' Minion (fst stats) (snd stats) 0)\<lparr>behavior := Some (MinionK Wisp)\<rparr>)"

definition createMushroom :: "int \<Rightarrow> enemy" where
  "createMushroom roundNumber =
     (let stats = scaleStats 38 6 roundNumber
      in (Enemy_new ''Poison Mushroom'' Minion (fst stats) (snd stats) 2)\<lparr>behavior := Some (MinionK Mushroom)\<rparr>)"

definition createCrab :: "int \<Rightarrow> enemy" where
  "createCrab roundNumber =
     (let stats = scaleStats 33 8 roundNumber
      in (Enemy_new ''Giant Crab'' Minion (fst stats) (snd stats) 3)\<lparr>behavior := Some (MinionK Crab)\<rparr>)"

definition createSnake :: "int \<Rightarrow> enemy" where
  "createSnake roundNumber =
     (let stats = scaleStats 25 9 roundNumber
      in (Enemy_new ''Viper'' Minion (fst stats) (snd stats) 0)\<lparr>behavior := Some (MinionK Snake)\<rparr>)"

definition createScorpion :: "int \<Rightarrow> enemy" where
  "createScorpion roundNumber =
     (let stats = scaleStats 29 10 roundNumber
      in (Enemy_new ''Giant Scorpion'' Minion (fst stats) (snd stats) 1)\<lparr>behavior := Some (MinionK Scorpion)\<rparr>)"

definition createHarpy :: "int \<Rightarrow> enemy" where
  "createHarpy roundNumber =
     (let stats = scaleStats 27 11 roundNumber
      in (Enemy_new ''Harpy'' Minion (fst stats) (snd stats) 0)\<lparr>behavior := Some (MinionK Harpy)\<rparr>)"

definition createGremlin :: "int \<Rightarrow> enemy" where
  "createGremlin roundNumber =
     (let stats = scaleStats 26 9 roundNumber
      in (Enemy_new ''Gremlin'' Minion (fst stats) (snd stats) 0)\<lparr>behavior := Some (MinionK Gremlin)\<rparr>)"

definition createShadowling :: "int \<Rightarrow> enemy" where
  "createShadowling roundNumber =
     (let stats = scaleStats 24 10 roundNumber
      in (Enemy_new ''Shadowling'' Minion (fst stats) (snd stats) 0)\<lparr>behavior := Some (MinionK Shadowling)\<rparr>)"

definition createFireElemental :: "int \<Rightarrow> enemy" where
  "createFireElemental roundNumber =
     (let stats = scaleStats 30 12 roundNumber
      in (Enemy_new ''Fire Elemental'' Minion (fst stats) (snd stats) 0)\<lparr>behavior := Some (MinionK FireElemental)\<rparr>)"

definition createIceElemental :: "int \<Rightarrow> enemy" where
  "createIceElemental roundNumber =
     (let stats = scaleStats 32 9 roundNumber
      in (Enemy_new ''Ice Elemental'' Minion (fst stats) (snd stats) 2)\<lparr>behavior := Some (MinionK IceElemental)\<rparr>)"

definition createWindElemental :: "int \<Rightarrow> enemy" where
  "createWindElemental roundNumber =
     (let stats = scaleStats 28 11 roundNumber
      in (Enemy_new ''Wind Elemental'' Minion (fst stats) (snd stats) 0)\<lparr>behavior := Some (MinionK WindElemental)\<rparr>)"

definition createEarthElemental :: "int \<Rightarrow> enemy" where
  "createEarthElemental roundNumber =
     (let stats = scaleStats 45 8 roundNumber
      in (Enemy_new ''Earth Elemental'' Minion (fst stats) (snd stats) 4)\<lparr>behavior := Some (MinionK EarthElemental)\<rparr>)"

definition createCorruptedKnight :: "int \<Rightarrow> enemy" where
  "createCorruptedKnight roundNumber =
     (let stats = scaleStats 35 11 roundNumber
      in (Enemy_new ''Corrupted Knight'' Minion (fst stats) (snd stats) 3)\<lparr>behavior := Some (MinionK CorruptedKnight)\<rparr>)"

definition createStoneGolem :: "int \<Rightarrow> enemy" where
  "createStoneGolem roundNumber =
     (let stats = scaleStats 80 12 roundNumber
      in (Enemy_new ''Stone Golem'' Elite (fst stats) (snd stats) 5)\<lparr>behavior := Some (EliteK StoneGolem)\<rparr>)"

definition createDarkMage :: "int \<Rightarrow> enemy" where
  "createDarkMage roundNumber =
     (let stats = scaleStats 60 18 roundNumber
      in (Enemy_new ''Dark Mage'' Elite (fst stats) (snd stats) 2)\<lparr>behavior := Some (EliteK DarkMage)\<rparr>)"

definition createBerserker :: "int \<Rightarrow> enemy" where
  "createBerserker roundNumber =
     (let stats = scaleStats 70 20 roundNumber
      in (Enemy_new ''Berserker'' Elite (fst stats) (snd stats) 1)\<lparr>behavior := Some (EliteK Berserker)\<rparr>)"

definition createNecromancer :: "int \<Rightarrow> enemy" where
  "createNecromancer roundNumber =
     (let stats = scaleStats 55 14 roundNumber
      in (Enemy_new ''Necromancer'' Elite (fst stats) (snd stats) 2)\<lparr>behavior := Some (EliteK Necromancer)\<rparr>)"

definition createAssassin :: "int \<Rightarrow> enemy" where
  "createAssassin roundNumber =
     (let stats = scaleStats 50 25 roundNumber
      in (Enemy_new ''Shadow Assassin'' Elite (fst stats) (snd stats) 0)\<lparr>behavior := Some (EliteK Assassin)\<rparr>)"

definition createWarlock :: "int \<Rightarrow> enemy" where
  "createWarlock roundNumber =
     (let stats = scaleStats 65 16 roundNumber
      in (Enemy_new ''Warlock'' Elite (fst stats) (snd stats) 3)\<lparr>behavior := Some (EliteK Warlock)\<rparr>)"

definition createVampire :: "int \<Rightarrow> enemy" where
  "createVampire roundNumber =
     (let stats = scaleStats 60 17 roundNumber
      in (Enemy_new ''Vampire Lord'' Elite (fst stats) (snd stats) 2)\<lparr>behavior := Some (EliteK Vampire)\<rparr>)"

definition createWerewolf :: "int \<Rightarrow> enemy" where
  "createWerewolf roundNumber =
     (let stats = scaleStats 75 19 roundNumber
      in (Enemy_new ''Werewolf'' Elite (fst stats) (snd stats) 2)\<lparr>behavior := Some (EliteK Werewolf)\<rparr>)"

definition createMinotaur :: "int \<Rightarrow> enemy" where
  "createMinotaur roundNumber =
     (let stats = scaleStats 85 18 roundNumber
      in (Enemy_new ''Minotaur'' Elite (fst stats) (snd stats) 4)\<lparr>behavior := Some (EliteK Minotaur), chargeCounter := 0\<rparr>)"

definition createHydra :: "int \<Rightarrow> enemy" where
  "createHydra roundNumber =
     (let stats = scaleStats 70 15 roundNumber
      in (Enemy_new ''Hydra'' Elite (fst stats) (snd stats) 3)\<lparr>behavior := Some (EliteK Hydra)\<rparr>)"

definition createPhoenix :: "int \<Rightarrow> enemy" where
  "createPhoenix roundNumber =
     (let stats = scaleStats 55 20 roundNumber
      in (Enemy_new ''Phoenix'' Elite (fst stats) (snd stats) 1)\<lparr>behavior := Some (EliteK Phoenix), hasRevived := False\<rparr>)"

definition createFrostGiant :: "int \<Rightarrow> enemy" where
  "createFrostGiant roundNumber =
     (let stats = scaleStats 90 16 roundNumber
      in (Enemy_new ''Frost Giant'' Elite (fst stats) (snd stats) 5)\<lparr>behavior := Some (EliteK FrostGiant)\<rparr>)"

definition createDemonLord :: "int \<Rightarrow> enemy" where
  "createDemonLord roundNumber =
     (let stats = scaleStats 75 22 roundNumber
      in (Enemy_new ''Demon Lord'' Elite (fst stats) (snd stats) 3)\<lparr>behavior := Some (EliteK DemonLord)\<rparr>)"

definition createDragonKnight :: "int \<Rightarrow> enemy" where
  "createDragonKnight roundNumber =
     (let stats = scaleStats 80 20 roundNumber
      in (Enemy_new ''Dragon Knight'' Elite (fst stats) (snd stats) 6)\<lparr>behavior := Some (EliteK DragonKnight)\<rparr>)"

definition createLich :: "int \<Rightarrow> enemy" where
  "createLich roundNumber =
     (let stats = scaleStats 65 18 roundNumber
      in (Enemy_new ''Lich'' Elite (fst stats) (snd stats) 4)\<lparr>behavior := Some (EliteK Lich)\<rparr>)"

definition createDragon :: "int \<Rightarrow> enemy" where
  "createDragon roundNumber =
     (let stats = scaleStats 150 25 roundNumber
      in (Enemy_new ''Ancient Dragon'' Boss (fst stats) (snd stats) 8)\<lparr>behavior := Some (BossK Dragon), phase := 1\<rparr>)"

definition createDemonKing :: "int \<Rightarrow> enemy" where
  "createDemonKing roundNumber =
     (let stats = scaleStats 140 28 roundNumber
      in (Enemy_new ''Demon King'' Boss (fst stats) (snd stats) 6)\<lparr>behavior := Some (BossK DemonKing)\<rparr>)"

definition createAncientLich :: "int \<Rightarrow> enemy" where
  "createAncientLich roundNumber =
     (let stats = scaleStats 120 22 roundNumber
      in (Enemy_new ''Ancient Lich'' Boss (fst stats) (snd stats) 7)\<lparr>behavior := Some (BossK AncientLich)\<rparr>)"

definition createTitanGolem :: "int \<Rightarrow> enemy" where
  "createTitanGolem roundNumber =
     (let stats = scaleStats 180 20 roundNumber
      in (Enemy_new ''Titan Golem'' Boss (fst stats) (snd stats) 10)\<lparr>behavior := Some (BossK TitanGolem), chargeCounter := 0\<rparr>)"

definition createVoidLord :: "int \<Rightarrow> enemy" where
  "createVoidLord roundNumber =
     (let stats = scaleStats 130 26 roundNumber
      in (Enemy_new ''Void Lord'' Boss (fst stats) (snd stats) 7)\<lparr>behavior := Some (BossK VoidLord)\<rparr>)"

definition createArchmage :: "int \<Rightarrow> enemy" where
  "createArchmage roundNumber =
     (let stats = scaleStats 110 30 roundNumber
      in (Enemy_new ''Archmage'' Boss (fst stats) (snd stats) 5)\<lparr>behavior := Some (BossK Archmage)\<rparr>)"

definition createDarkOverlord :: "int \<Rightarrow> enemy" where
  "createDarkOverlord roundNumber =
     (let stats = scaleStats 145 27 roundNumber
      in (Enemy_new ''Dark Overlord'' Boss (fst stats) (snd stats) 8)\<lparr>behavior := Some (BossK DarkOverlord)\<rparr>)"

definition createCelestialBeing :: "int \<Rightarrow> enemy" where
  "createCelestialBeing roundNumber =
     (let stats = scaleStats 125 24 roundNumber
      in (Enemy_new ''Celestial Being'' Boss (fst stats) (snd stats) 6)\<lparr>behavior := Some (BossK CelestialBeing)\<rparr>)"

definition createEldritchHorror :: "int \<Rightarrow> enemy" where
  "createEldritchHorror roundNumber =
     (let stats = scaleStats 135 29 roundNumber
      in (Enemy_new ''Eldritch Horror'' Boss (fst stats) (snd stats) 7)\<lparr>behavior := Some (BossK EldritchHorror)\<rparr>)"

definition createPrimordialBeast :: "int \<Rightarrow> enemy" where
  "createPrimordialBeast roundNumber =
     (let stats = scaleStats 160 23 roundNumber
      in (Enemy_new ''Primordial Beast'' Boss (fst stats) (snd stats) 9)\<lparr>behavior := Some (BossK PrimordialBeast)\<rparr>)"

definition minions :: "(int \<Rightarrow> enemy) list" where
  "minions =
     [createGoblin, createSkeleton, createRat, createBat, createSlime, createZombie,
      createWolf, createSpider, createBandit, createCultist, createImp, createGhost,
      createWisp, createMushroom, createCrab, createSnake, createScorpion, createHarpy,
      createGremlin, createShadowling, createFireElemental, createIceElemental,
      createWindElemental, createEarthElemental, createCorruptedKnight]"

definition elites :: "(int \<Rightarrow> enemy) list" where
  "elites =
     [createStoneGolem, createDarkMage, createBerserker, createNecromancer, createAssassin,
      createWarlock, createVampire, createWerewolf, createMinotaur, createHydra,
      createPhoenix, createFrostGiant, createDemonLord, createDragonKnight, createLich]"

definition bosses :: "(int \<Rightarrow> enemy) list" where
  "bosses =
     [createDragon, createDemonKing, createAncientLich, createTitanGolem, createVoidLord,
      createArchmage, createDarkOverlord, createCelestialBeing, createEldritchHorror,
      createPrimordialBeast]"

text \<open>
  \<^verbatim>\<open>creator = list[Math.floor(Math.random() * list.length)]; creator.call(this, roundNumber)\<close>;
  calling \<^verbatim>\<open>undefined\<close> is a TypeError (\<open>None\<close>).
\<close>

definition createMinion :: "environment \<Rightarrow> int \<Rightarrow> enemy option" where
  "createMinion env roundNumber = map_option (\<lambda>creator. creator roundNumber) (pick (rndSpawn env) minions)"

definition createElite :: "environment \<Rightarrow> int \<Rightarrow> enemy option" where
  "createElite env roundNumber = map_option (\<lambda>creator. creator roundNumber) (pick (rndSpawn env) elites)"

definition createBoss :: "environment \<Rightarrow> int \<Rightarrow> enemy option" where
  "createBoss env roundNumber = map_option (\<lambda>creator. creator roundNumber) (pick (rndSpawn env) bosses)"

definition createEnemy :: "environment \<Rightarrow> int \<Rightarrow> enemy option" where
  "createEnemy env roundNumber =
     (let isBossRound = (roundNumber mod 10 = 0 \<and> roundNumber > 0);
          isEliteRound = (roundNumber mod 5 = 0 \<and> \<not> isBossRound \<and> roundNumber > 0)
      in if isBossRound then createBoss env roundNumber
         else if isEliteRound then createElite env roundNumber
         else createMinion env roundNumber)"

subsection \<open>Items and the merchant\<close>

text \<open>\<^verbatim>\<open>item.apply(player)\<close> for every item class.\<close>

fun applyItem :: "item \<Rightarrow> player \<Rightarrow> player" where
  "applyItem (StatI SharpenedEdge) p = p\<lparr>attackBonus := attackBonus p + 3\<rparr>"
| "applyItem (StatI BlessedBarrier) p = p\<lparr>defenseBonus := defenseBonus p + 2\<rparr>"
| "applyItem (StatI IronPlate) p = p\<lparr>defenseBonus := defenseBonus p + 5\<rparr>"
| "applyItem (StatI PowerGauntlets) p = p\<lparr>attackBonus := attackBonus p + 5\<rparr>"
| "applyItem (StatI VampiricBlade) p = addEffect ((mkEffect ''Vampiric'')\<lparr>fx_healing := Some 2\<rparr>) p"
| "applyItem (StatI BerserkersRage) p =
     p\<lparr>attackBonus := attackBonus p + 8, defenseBonus := defenseBonus p - 3\<rparr>"
| "applyItem (StatI TurtleShell) p =
     p\<lparr>defenseBonus := defenseBonus p + 10, attackBonus := attackBonus p - 2\<rparr>"
| "applyItem (HealthI HealthPotion) p = snd (heal 30 p)"
| "applyItem (HealthI GreaterHealthPotion) p = snd (heal 50 p)"
| "applyItem (HealthI MaxHealthUpgrade) p = p\<lparr>maxHP := maxHP p + 20, currentHP := currentHP p + 20\<rparr>"
| "applyItem (HealthI PhoenixFeather) p = addEffect (mkEffect ''Phoenix Feather'') p"
| "applyItem (DiceI RerollToken) p = p\<lparr>rerollsPerRound := rerollsPerRound p + 1\<rparr>"
| "applyItem (DiceI LuckyDie) p = addEffect (mkEffect ''Lucky'') p"
| "applyItem (DiceI DiceFaceUpgrade) p = p"
| "applyItem (DiceI LoadedDice) p = addEffect (mkEffect ''Loaded Dice'') p"
| "applyItem (CritI CriticalEdge) p = p\<lparr>critChance := critChance p + 10\<rparr>"
| "applyItem (CritI SavageBlow) p = p\<lparr>critMultiplier := 5/2\<rparr>"
| "applyItem (CritI GuaranteedCrit) p =
     addEffect ((mkEffect ''Guaranteed Crit'')\<lparr>fx_duration := Some 1\<rparr>) p"
| "applyItem (AbilityI MagicAmplifier) p = addEffect (mkEffect ''Magic Amplifier'') p"
| "applyItem (AbilityI SymbolCollector) p = addEffect (mkEffect ''Symbol Collector'') p"
| "applyItem (AbilityI DoubleSymbol) p = addEffect (mkEffect ''Twin Rune'') p"
| "applyItem (DefensiveI ThornArmor) p =
     addEffect ((mkEffect ''Thorns'')\<lparr>fx_reflectDamage := Some (round64 (3/10))\<rparr>) p"
| "applyItem (DefensiveI ShieldOfFaith) p =
     addEffect ((mkEffect ''Shield of Faith'')\<lparr>fx_blockDamage := Some 5\<rparr>) p"
| "applyItem (DefensiveI Evasion) p =
     addEffect ((mkEffect ''Evasion'')\<lparr>fx_dodgeChance := Some (round64 (2/10))\<rparr>) p"
| "applyItem (UtilityI GoldMagnet) p =
     addEffect ((mkEffect ''Gold Magnet'')\<lparr>fx_goldMultiplier := Some (3/2)\<rparr>) p"
| "applyItem (UtilityI ExtraGold) p = addGold 50 p"
| "applyItem (UtilityI MerchantDiscount) p =
     addEffect ((mkEffect ''Discount'')\<lparr>fx_priceMultiplier := Some (round64 (8/10))\<rparr>) p"
| "applyItem (ComboI BalancedBlade) p =
     p\<lparr>attackBonus := attackBonus p + 3, defenseBonus := defenseBonus p + 3\<rparr>"
| "applyItem (ComboI ChaosCrystal) p = addEffect (mkEffect ''Chaos Crystal'') p"
| "applyItem (ComboI BloodPact) p =
     (let p1 = p\<lparr>maxHP := maxHP p - 5\<rparr>;
          p2 = p1\<lparr>currentHP := min (currentHP p1) (maxHP p1)\<rparr>
      in p2\<lparr>attackBonus := attackBonus p2 + 10\<rparr>)"
| "applyItem (ComboI RegenerationRing) p =
     addEffect ((mkEffect ''Regeneration'')\<lparr>fx_healPerTurn := Some 3\<rparr>) p"
| "applyItem (ComboI FocusedMind) p = addEffect (mkEffect ''Focus'') p"
| "applyItem (ComboI TimeWarpAmulet) p =
     addEffect ((mkEffect ''Time Warp'')\<lparr>fx_duration := Some 1\<rparr>) p"
| "applyItem (ComboI DragonScale) p =
     addEffect (mkEffect ''Dragon Scale'') (p\<lparr>defenseBonus := defenseBonus p + 8\<rparr>)"
| "applyItem (ComboI PoisonVial) p = addEffect (mkEffect ''Poison Vial'') p"

text \<open>\<^verbatim>\<open>Player.addItem\<close>: \<^verbatim>\<open>this.items.push(item); item.apply(this)\<close>\<close>

definition addItem :: "item \<Rightarrow> player \<Rightarrow> player" where
  "addItem it p = applyItem it (p\<lparr>items := items p @ [it]\<rparr>)"

datatype merchantKind = NormalMerchant | BlackMarketMerchant | DiscountMerchant | MysteriousMerchant

record merchant =
  m_kind :: merchantKind
  inventory :: "stockItem list"
  soldItems :: "int list"
  encounterCount :: int

text \<open>The constructor shared by the four merchant classes.\<close>

definition Merchant_new :: "merchantKind \<Rightarrow> merchant" where
  "Merchant_new k = \<lparr> m_kind = k, inventory = [], soldItems = [], encounterCount = 0 \<rparr>"

text \<open>\<^verbatim>\<open>MerchantFactory.createMerchant(encounterNumber, player)\<close>; the player is not used.\<close>

definition createMerchant :: "int \<Rightarrow> merchant" where
  "createMerchant encounterNumber =
     (if encounterNumber mod 9 = 0 \<and> encounterNumber > 0 then Merchant_new BlackMarketMerchant
      else if encounterNumber mod 6 = 0 \<and> encounterNumber > 0 then Merchant_new DiscountMerchant
      else if encounterNumber mod 12 = 0 \<and> encounterNumber > 0 then Merchant_new MysteriousMerchant
      else Merchant_new NormalMerchant)"

definition generateInventory :: "environment \<Rightarrow> merchant \<Rightarrow> merchant" where
  "generateInventory env m =
     m\<lparr>encounterCount := encounterCount m + 1, inventory := drawnInventory env, soldItems := []\<rparr>"

text \<open>\<^verbatim>\<open>ItemFactory.applyDiscount(item, player)\<close>\<close>

definition applyDiscount :: "stockItem \<Rightarrow> player \<Rightarrow> int" where
  "applyDiscount it p =
     (case find (\<lambda>x. fx_name x = ''Discount'') (effects p) of
        Some discountEffect \<Rightarrow>
          if truthy (fx_priceMultiplier discountEffect)
          then \<lfloor>round64 (of_int (s_cost it) * orZero (fx_priceMultiplier discountEffect))\<rfloor>
          else s_cost it
      | None \<Rightarrow> s_cost it)"

datatype purchaseResult = PurchaseFailed string | Purchased item int

definition Merchant_purchaseItem ::
  "int \<Rightarrow> player \<Rightarrow> merchant \<Rightarrow> purchaseResult \<times> player \<times> merchant" where
  "Merchant_purchaseItem itemIndex p m =
     (if itemIndex < 0 \<or> itemIndex \<ge> int (length (inventory m))
      then (PurchaseFailed ''Invalid item.'', p, m)
      else if itemIndex \<in> set (soldItems m)
      then (PurchaseFailed ''Item already sold.'', p, m)
      else
        (let it = inventory m ! nat itemIndex;
             actualCost = applyDiscount it p
         in if gold p < actualCost then (PurchaseFailed ''Not enough gold!'', p, m)
            else (Purchased (s_item it) actualCost,
                  addItem (s_item it) (snd (spendGold actualCost p)),
                  m\<lparr>soldItems := soldItems m @ [itemIndex]\<rparr>)))"

subsection \<open>GameManager: state\<close>

datatype gameState = Menu | Combat | AtMerchant | GameOver

record assignedDice =
  as_attack :: "dice option"
  as_defense :: "dice option"
  as_special :: "dice list"

record stats =
  enemiesDefeated :: int
  totalDamageDealt :: int
  totalDamageTaken :: int
  goldEarned :: int
  itemsPurchased :: int
  highestRound :: int
  st_className :: "className option"

text \<open>An entry of the best-runs list.\<close>

record runData =
  rd_className :: "className option"
  rd_round :: int
  rd_enemiesDefeated :: int
  rd_damageDealt :: int
  rd_gold :: int
  rd_date :: string

text \<open>
  \<open>bestRunsStore\<close> is the \<^verbatim>\<open>localStorage\<close> item \<^verbatim>\<open>dungeonDiceTactician_bestRuns\<close>:
  \<open>None\<close> when it has never been written, otherwise the list whose JSON text it holds.
  The dice in \<open>rolledDice\<close> and \<open>assignedDice\<close> are the player's own dice objects; they
  are copied here, which no code can tell apart, since a roll clears the assignments
  before it changes a face.
\<close>

record gameManager =
  g_player :: "player option"
  g_enemy :: "enemy option"
  g_merchant :: "merchant option"
  currentRound :: int
  gameState :: gameState
  merchantEncounterCount :: int
  rolledDice :: "dice list"
  assignedDice :: assignedDice
  hasRolled :: bool
  stats :: stats
  bestRunsStore :: "runData list option"

definition noAssignedDice :: assignedDice where
  "noAssignedDice = \<lparr> as_attack = None, as_defense = None, as_special = [] \<rparr>"

definition resetDiceAssignments :: "gameManager \<Rightarrow> gameManager" where
  "resetDiceAssignments gm = gm\<lparr>assignedDice := noAssignedDice\<rparr>"

text \<open>
  \<^verbatim>\<open>hasRolled && (assignedDice.attack || assignedDice.defense || assignedDice.special.length > 0)\<close>
\<close>

definition canExecuteTurn :: "gameManager \<Rightarrow> bool" where
  "canExecuteTurn gm =
     (hasRolled gm \<and>
      (case as_attack (assignedDice gm) of
         Some d \<Rightarrow> True
       | None \<Rightarrow>
           (case as_defense (assignedDice gm) of
              Some d \<Rightarrow> True
            | None \<Rightarrow> length (as_special (assignedDice gm)) > 0)))"

subsection \<open>GameManager: the best-runs store\<close>

definition loadBestRuns :: "gameManager \<Rightarrow> runData list" where
  "loadBestRuns gm = (case bestRunsStore gm of Some saved \<Rightarrow> saved | None \<Rightarrow> [])"

text \<open>
  \<^verbatim>\<open>bestRuns.sort((a, b) => b.round - a.round)\<close> is a stable sort by descending round:
  \<^const>\<open>sort_key\<close> with the negated round as key.
\<close>

definition currentRunData :: "environment \<Rightarrow> gameManager \<Rightarrow> runData" where
  "currentRunData env gm =
     \<lparr> rd_className = st_className (stats gm),
       rd_round = currentRound gm - 1,
       rd_enemiesDefeated = enemiesDefeated (stats gm),
       rd_damageDealt = totalDamageDealt (stats gm),
       rd_gold = goldEarned (stats gm),
       rd_date = today env \<rparr>"

definition saveBestRun :: "environment \<Rightarrow> gameManager \<Rightarrow> gameManager" where
  "saveBestRun env gm =
     (let bestRuns = loadBestRuns gm;
          runData = currentRunData env gm;
          sortedRuns = sort_key (\<lambda>r. - rd_round r) (bestRuns @ [runData]);
          top10 = take 10 sortedRuns
      in gm\<lparr>bestRunsStore := Some top10\<rparr>)"

subsection \<open>GameManager: dice\<close>

text \<open>\<^verbatim>\<open>Dice.roll\<close>, with the draw \<open>u\<close>: an index out of range leaves \<^verbatim>\<open>undefined\<close>.\<close>

definition roll :: "rat \<Rightarrow> dice \<Rightarrow> dice" where
  "roll u d = d\<lparr>currentFace := pick u (faces d), isRolled := True\<rparr>"

definition rollAll :: "environment \<Rightarrow> dice list \<Rightarrow> dice list" where
  "rollAll env ds = map (\<lambda>(i, d). roll (rndRoll env i) d) (enumerate 0 ds)"

datatype 'a outcome = Failure string | Success 'a

definition rollDice :: "environment \<Rightarrow> gameManager \<Rightarrow> dice list outcome \<times> gameManager" where
  "rollDice env gm =
     (case g_player gm of
        None \<Rightarrow> (Failure ''Cannot roll dice now.'', gm)
      | Some p \<Rightarrow>
          if gameState gm \<noteq> Combat then (Failure ''Cannot roll dice now.'', gm)
          else
            (let ds = rollAll env (diceSet p)
             in (Success ds,
                 (resetDiceAssignments gm)\<lparr>g_player := Some (p\<lparr>diceSet := ds\<rparr>),
                                            rolledDice := ds, hasRolled := True\<rparr>)))"

datatype slot = AttackSlot | DefenseSlot | SpecialSlot | OtherSlot

definition removeDieFromAllSlots :: "string \<Rightarrow> gameManager \<Rightarrow> gameManager" where
  "removeDieFromAllSlots dieId gm =
     (let a = assignedDice gm;
          a1 = (case as_attack a of Some d \<Rightarrow> if d_id d = dieId then a\<lparr>as_attack := None\<rparr> else a
                | None \<Rightarrow> a);
          a2 = (case as_defense a1 of Some d \<Rightarrow> if d_id d = dieId then a1\<lparr>as_defense := None\<rparr> else a1
                | None \<Rightarrow> a1)
      in gm\<lparr>assignedDice := a2\<lparr>as_special := filter (\<lambda>d. d_id d \<noteq> dieId) (as_special a2)\<rparr>\<rparr>)"

definition assignDie :: "string \<Rightarrow> slot \<Rightarrow> gameManager \<Rightarrow> unit outcome \<times> gameManager" where
  "assignDie dieId sl gm =
     (case find (\<lambda>d. d_id d = dieId) (rolledDice gm) of
        None \<Rightarrow> (Failure ''Invalid die.'', gm)
      | Some die \<Rightarrow>
          if \<not> isRolled die then (Failure ''Invalid die.'', gm)
          else
            (let gm1 = removeDieFromAllSlots dieId gm; a = assignedDice gm1
             in (Success (),
                 gm1\<lparr>assignedDice :=
                   (case sl of
                      AttackSlot \<Rightarrow> a\<lparr>as_attack := Some die\<rparr>
                    | DefenseSlot \<Rightarrow> a\<lparr>as_defense := Some die\<rparr>
                    | SpecialSlot \<Rightarrow> a\<lparr>as_special := as_special a @ [die]\<rparr>
                    | OtherSlot \<Rightarrow> a)\<rparr>)))"

subsection \<open>GameManager: one turn\<close>

datatype logType = LogPlayer | LogSpecial | LogInfo | LogEnemy

type_synonym combatLog = "(logType \<times> message) list"

text \<open>
  The four objects that \<^verbatim>\<open>executeTurn\<close> returns: the rejection
  \<^verbatim>\<open>{success: false, message}\<close>, and with \<^verbatim>\<open>success: true\<close> the end of an ordinary
  turn (log and both hit points), the enemy's defeat (log and next state) and the
  player's defeat (log and statistics).
\<close>

datatype turnResult =
    Rejected string
  | TurnDone combatLog int int
  | EnemyDefeated combatLog gameState
  | PlayerDefeated combatLog stats

fun success :: "turnResult \<Rightarrow> bool" where
  "success (Rejected m) = False"
| "success (TurnDone l ph eh) = True"
| "success (EnemyDefeated l s) = True"
| "success (PlayerDefeated l st) = True"

text \<open>
  The objects and local variables that the body of \<^verbatim>\<open>executeTurn\<close> works on, between
  its guard and its three exits.
\<close>

record turn =
  t_player :: player
  t_enemy :: enemy
  t_stats :: stats
  attackValue :: int
  defenseValue :: int
  specialActivated :: bool
  combatLog :: combatLog

definition pushLog :: "logType \<Rightarrow> message \<Rightarrow> turn \<Rightarrow> turn" where
  "pushLog ty m t = t\<lparr>combatLog := combatLog t @ [(ty, m)]\<rparr>"

text \<open>Lines 178--198: the values of the dice in the attack and defense slots, plus bonuses.\<close>

definition baseAttackValue :: "assignedDice \<Rightarrow> player \<Rightarrow> int" where
  "baseAttackValue a p =
     (case as_attack a of
        Some die \<Rightarrow> if getFaceType die = Some FAttack then getFaceValue die else 0
      | None \<Rightarrow> 0) + getTotalAttackBonus p"

definition baseDefenseValue :: "assignedDice \<Rightarrow> player \<Rightarrow> int" where
  "baseDefenseValue a p =
     (case as_defense a of
        Some die \<Rightarrow> if getFaceType die = Some FDefense then getFaceValue die else 0
      | None \<Rightarrow> 0) + getTotalDefenseBonus p"

text \<open>Lines 208--218: the passive, and what it adds.\<close>

definition resolvePassive :: "environment \<Rightarrow> combatContext \<Rightarrow> turn \<Rightarrow> turn option" where
  "resolvePassive env ctx t =
     (case applyPassiveAbility env ctx (t_player t) of
        None \<Rightarrow> None
      | Some (passiveResult, p1) \<Rightarrow>
          (let t1 = t\<lparr>t_player := p1\<rparr>;
               t2 = (case r_message passiveResult of
                       Some m \<Rightarrow> if m \<noteq> [] then pushLog LogPlayer m t1 else t1
                     | None \<Rightarrow> t1);
               t3 = (if truthy (r_bonusDamage passiveResult)
                     then t2\<lparr>attackValue := attackValue t2 + orZero (r_bonusDamage passiveResult)\<rparr>
                     else t2)
           in Some (if truthy (r_bonusDefense passiveResult)
                    then t3\<lparr>defenseValue := defenseValue t3 + orZero (r_bonusDefense passiveResult)\<rparr>
                    else t3)))"

text \<open>Lines 224--247: what a successful special adds.\<close>

definition foldSpecial :: "abilityResult \<Rightarrow> turn \<Rightarrow> turn" where
  "foldSpecial specialResult t =
     (let t1 = pushLog LogSpecial (case r_message specialResult of Some m \<Rightarrow> m | None \<Rightarrow> [])
                 (t\<lparr>specialActivated := True\<rparr>);
          t2 = (if truthy (r_bonusDamage specialResult)
                then t1\<lparr>attackValue := attackValue t1 + orZero (r_bonusDamage specialResult)\<rparr> else t1);
          t3 = (if truthy (r_damage specialResult)
                then t2\<lparr>attackValue := orZero (r_damage specialResult)\<rparr> else t2);
          t4 = (if truthy (r_bonusDefense specialResult)
                then t3\<lparr>defenseValue := defenseValue t3 + orZero (r_bonusDefense specialResult)\<rparr> else t3);
          t5 = (if r_isCrit specialResult = Some True
                then t4\<lparr>attackValue := \<lfloor>round64 (of_int (attackValue t4) * critMultiplier (t_player t4))\<rfloor>\<rparr>
                else t4);
          t6 = (case r_applyEffect specialResult of
                  Some x \<Rightarrow> t5\<lparr>t_enemy := addEffect x (t_enemy t5)\<rparr>
                | None \<Rightarrow> t5)
      in if r_skipEnemyTurn specialResult = Some True
         then pushLog LogInfo [S ''Enemy is frozen in time!''] t6 else t6)"

text \<open>Lines 220--248: the special is tried when a die sits in the special slot.\<close>

definition resolveSpecial :: "environment \<Rightarrow> combatContext \<Rightarrow> dice list \<Rightarrow> turn \<Rightarrow> turn" where
  "resolveSpecial env ctx special t =
     (if length special > 0 then
        (let (specialResult, p1) = activateSpecial env ctx (t_player t);
             t1 = t\<lparr>t_player := p1\<rparr>
         in if r_success specialResult = Some True then foldSpecial specialResult t1 else t1)
      else t)"

text \<open>Lines 250--255: the critical strike.\<close>

definition criticalStrike :: "environment \<Rightarrow> turn \<Rightarrow> turn" where
  "criticalStrike env t =
     (let critRoll = round64 (rndCrit env * 100) in
      if critRoll < of_int (critChance (t_player t)) \<and> attackValue t > 0
      then pushLog LogSpecial [S ''CRITICAL HIT!'']
             (t\<lparr>attackValue := \<lfloor>round64 (of_int (attackValue t) * critMultiplier (t_player t))\<rfloor>\<rparr>)
      else t)"

text \<open>Lines 257--271: the player's hit on the enemy; the thorns only write to the log.\<close>

definition playerAttacks :: "turn \<Rightarrow> turn" where
  "playerAttacks t =
     (if attackValue t > 0 then
        (let (damageDealt, e1) = Enemy_takeDamage (attackValue t) (t_enemy t);
             t1 = pushLog LogPlayer [S ''You deal '', N damageDealt, S '' damage!'']
                    (t\<lparr>t_enemy := e1\<rparr>);
             t2 = t1\<lparr>t_stats := (t_stats t1)\<lparr>totalDamageDealt := totalDamageDealt (t_stats t1) + damageDealt\<rparr>\<rparr>
         in case find (\<lambda>x. fx_name x = ''Thorns'') (effects (t_player t2)) of
              Some thornEffect \<Rightarrow>
                if truthy (fx_reflectDamage thornEffect)
                then pushLog LogPlayer
                       [S ''Thorns reflect '',
                        N \<lfloor>round64 (of_int damageDealt * orZero (fx_reflectDamage thornEffect))\<rfloor>, S '' damage!''] t2
                else t2
            | None \<Rightarrow> t2)
      else pushLog LogInfo [S ''You defend.''] t)"

text \<open>\<^verbatim>\<open>enemyAction.message || `${this.enemy.name} <verb>`\<close>\<close>

definition actionMessage :: "action \<Rightarrow> enemy \<Rightarrow> string \<Rightarrow> message" where
  "actionMessage act e verb =
     (case a_message act of
        Some m \<Rightarrow> if m \<noteq> [] then [S m] else [S (ename e), S verb]
      | None \<Rightarrow> [S (ename e), S verb])"

text \<open>
  Lines 289--343: an attack of the enemy. Every attack that a behaviour returns has a
  value, which \<open>orZero\<close> reads.
\<close>

definition enemyAttack :: "environment \<Rightarrow> action \<Rightarrow> turn \<Rightarrow> turn" where
  "enemyAttack env enemyAction t =
     (let enemyDamage = orZero (a_value enemyAction);
          m0 = max 0 (enemyDamage - defenseValue t);
          m1 = (case find (\<lambda>x. fx_name x = ''Shield of Faith'') (effects (t_player t)) of
                  Some shieldEffect \<Rightarrow>
                    if truthy (fx_blockDamage shieldEffect)
                    then max 0 (m0 - orZero (fx_blockDamage shieldEffect)) else m0
                | None \<Rightarrow> m0);
          dodged = (case find (\<lambda>x. fx_name x = ''Evasion'') (effects (t_player t)) of
                      Some evasionEffect \<Rightarrow>
                        truthy (fx_dodgeChance evasionEffect)
                        \<and> rndDodge env < orZero (fx_dodgeChance evasionEffect)
                    | None \<Rightarrow> False);
          t1 = (if dodged then pushLog LogPlayer [S ''You dodged the attack!''] t else t);
          m2 = (if dodged then 0 else m1);
          t2 = (if m2 > 0 then
                  (let shield = orZero (divineShield (specialCounters (t_player t1)));
                       absorbed = min m2 shield;
                       ta = (if shield > 0
                             then pushLog LogPlayer [S ''Divine Shield absorbs '', N absorbed, S '' damage!'']
                                    (t1\<lparr>t_player := (t_player t1)\<lparr>specialCounters :=
                                       (specialCounters (t_player t1))\<lparr>divineShield := Some (shield - absorbed)\<rparr>\<rparr>\<rparr>)
                             else t1);
                       m3 = (if shield > 0 then m2 - absorbed else m2);
                       (actualDamage, p1) = Player_takeDamage m3 (t_player ta);
                       tb = ta\<lparr>t_player := p1,
                              t_stats := (t_stats ta)\<lparr>totalDamageTaken := totalDamageTaken (t_stats ta) + actualDamage\<rparr>\<rparr>
                   in pushLog LogEnemy
                        (actionMessage enemyAction (t_enemy tb) '' attacks''
                           @ [S '' for '', N actualDamage, S '' damage!'']) tb)
                else pushLog LogPlayer [S ''You blocked all damage!''] t1);
          t3 = (if truthy (a_poison enemyAction)
                then pushLog LogEnemy [S ''You are poisoned! ('', N (orZero (a_poison enemyAction)), S '' damage/turn)'']
                       (t2\<lparr>t_player := addEffect ((mkEffect ''Poison'')\<lparr>fx_damage := a_poison enemyAction,
                                                       fx_duration := Some 3\<rparr>) (t_player t2)\<rparr>)
                else t2);
          t4 = (if truthy (a_burn enemyAction)
                then pushLog LogEnemy [S ''You are burning! ('', N (orZero (a_burn enemyAction)), S '' damage/turn)'']
                       (t3\<lparr>t_player := addEffect ((mkEffect ''Burn'')\<lparr>fx_damage := a_burn enemyAction,
                                                       fx_duration := Some 3\<rparr>) (t_player t3)\<rparr>)
                else t3)
      in if truthy (a_lifeSteal enemyAction) then
           (let healAmount = \<lfloor>round64 (of_int (orZero (a_value enemyAction)) * orZero (a_lifeSteal enemyAction))\<rfloor>
            in pushLog LogEnemy [S (ename (t_enemy t4)), S '' heals '', N healAmount, S '' HP!'']
                 (t4\<lparr>t_enemy := snd (heal healAmount (t_enemy t4))\<rparr>))
         else t4)"

text \<open>Lines 286--352: the enemy acts; an action of type \<^verbatim>\<open>revive\<close> has no branch.\<close>

definition enemyActs :: "environment \<Rightarrow> turn \<Rightarrow> turn" where
  "enemyActs env t =
     (let (enemyAction, e1) = executeAction env (t_enemy t);
          t1 = t\<lparr>t_enemy := e1\<rparr>
      in case a_type enemyAction of
           AttackA \<Rightarrow> enemyAttack env enemyAction t1
         | HealA \<Rightarrow>
             (let (healAmount, e2) = heal (orZero (a_value enemyAction)) (t_enemy t1)
              in pushLog LogEnemy (actionMessage enemyAction e2 '' heals'' @ [S '' for '', N healAmount, S '' HP!''])
                   (t1\<lparr>t_enemy := e2\<rparr>))
         | DefendA \<Rightarrow> pushLog LogEnemy (actionMessage enemyAction (t_enemy t1) '' defends'') t1
         | ReviveA \<Rightarrow> t1)"

text \<open>Lines 354--364: the player's effects and the regeneration.\<close>

definition playerUpkeep :: "turn \<Rightarrow> turn" where
  "playerUpkeep t =
     (let t1 = t\<lparr>t_player := Player_updateEffects (t_player t)\<rparr>
      in case find (\<lambda>x. fx_name x = ''Regeneration'' \<and> truthy (fx_healPerTurn x)) (effects (t_player t1)) of
           Some regenEffect \<Rightarrow>
             (let (healAmount, p1) = heal (orZero (fx_healPerTurn regenEffect)) (t_player t1);
                  t2 = t1\<lparr>t_player := p1\<rparr>
              in if healAmount > 0
                 then pushLog LogPlayer [S ''Regeneration heals '', N healAmount, S '' HP!''] t2 else t2)
         | None \<Rightarrow> t1)"

text \<open>Writing the objects and statistics of a turn back to the manager.\<close>

definition commit :: "turn \<Rightarrow> gameManager \<Rightarrow> gameManager" where
  "commit t gm = gm\<lparr>g_player := Some (t_player t), g_enemy := Some (t_enemy t), stats := t_stats t\<rparr>"

text \<open>\<^verbatim>\<open>spawnEnemy\<close>; \<open>None\<close> when \<^verbatim>\<open>EnemyFactory.createEnemy\<close> throws.\<close>

definition spawnEnemy :: "environment \<Rightarrow> gameManager \<Rightarrow> gameManager option" where
  "spawnEnemy env gm =
     (case createEnemy env (currentRound gm) of
        None \<Rightarrow> None
      | Some e \<Rightarrow> Some (resetDiceAssignments (gm\<lparr>g_enemy := Some e, hasRolled := False\<rparr>)))"

text \<open>The last three statements of \<^verbatim>\<open>handleEnemyDefeat\<close> and of an ordinary turn.\<close>

definition resetForNextTurn :: "gameManager \<Rightarrow> gameManager" where
  "resetForNextTurn gm =
     (resetDiceAssignments (gm\<lparr>hasRolled := False\<rparr>))\<lparr>g_player := map_option resetRerolls (g_player gm)\<rparr>"

definition handleEnemyDefeat ::
  "environment \<Rightarrow> combatLog \<Rightarrow> gameManager \<Rightarrow> (turnResult \<times> gameManager) option" where
  "handleEnemyDefeat env clog gm =
     (case (g_player gm, g_enemy gm) of
        (Some p, Some e) \<Rightarrow>
          (let st1 = (stats gm)\<lparr>enemiesDefeated := enemiesDefeated (stats gm) + 1\<rparr>;
               goldReward =
                 (case find (\<lambda>x. fx_name x = ''Gold Magnet'') (effects p) of
                    Some goldMagnet \<Rightarrow>
                      if truthy (fx_goldMultiplier goldMagnet)
                      then \<lfloor>round64 (of_int (goldReward e) * orZero (fx_goldMultiplier goldMagnet))\<rfloor>
                      else goldReward e
                  | None \<Rightarrow> goldReward e);
               st2 = st1\<lparr>goldEarned := goldEarned st1 + goldReward\<rparr>;
               clog1 = clog @ [(LogSpecial, [S (ename e), S '' defeated! +'', N goldReward, S '' gold''])];
               round1 = currentRound gm + 1;
               gm1 = gm\<lparr>g_player := Some (addGold goldReward p),
                        stats := st2\<lparr>highestRound := max (highestRound st2) round1\<rparr>,
                        currentRound := round1\<rparr>
           in if round1 mod 3 = 0 then
                (let count = merchantEncounterCount gm1 + 1;
                     gm2 = gm1\<lparr>gameState := AtMerchant, merchantEncounterCount := count,
                              g_merchant := Some (generateInventory env (createMerchant count))\<rparr>;
                     gm3 = resetForNextTurn gm2
                 in Some (EnemyDefeated (clog1 @ [(LogInfo, [S ''A traveling merchant appears!''])])
                            (gameState gm3), gm3))
              else
                (case spawnEnemy env gm1 of
                   None \<Rightarrow> None
                 | Some gm2 \<Rightarrow>
                     (let gm3 = resetForNextTurn gm2
                      in Some (EnemyDefeated clog1 (gameState gm3), gm3))))
      | _ \<Rightarrow> None)"

definition handlePlayerDefeat ::
  "environment \<Rightarrow> combatLog \<Rightarrow> gameManager \<Rightarrow> turnResult \<times> gameManager" where
  "handlePlayerDefeat env clog gm =
     (let gm1 = saveBestRun env (gm\<lparr>gameState := GameOver\<rparr>)
      in (PlayerDefeated (clog @ [(LogEnemy, [S ''You have been defeated...''])]) (stats gm1), gm1))"

text \<open>Lines 176--206: the locals at the start of a turn, and the context for the abilities.\<close>

definition turnStart :: "gameManager \<Rightarrow> player \<Rightarrow> enemy \<Rightarrow> turn" where
  "turnStart gm p e =
     \<lparr> t_player = p, t_enemy = e, t_stats = stats gm,
       attackValue = baseAttackValue (assignedDice gm) p,
       defenseValue = baseDefenseValue (assignedDice gm) p,
       specialActivated = False, combatLog = [] \<rparr>"

definition turnContext :: "gameManager \<Rightarrow> turn \<Rightarrow> combatContext" where
  "turnContext gm t0 =
     \<lparr> c_attackValue = attackValue t0, c_defenseValue = defenseValue t0,
       c_specialDice = as_special (assignedDice gm), c_round = currentRound gm \<rparr>"

text \<open>
  Lines 278--364: the enemy's effects tick, the enemy acts unless the Time Weaver's
  special has been activated, then the player's effects and regeneration.
\<close>

definition enemyPhase :: "environment \<Rightarrow> dice list \<Rightarrow> turn \<Rightarrow> turn" where
  "enemyPhase env special t2 =
     (let t3 = t2\<lparr>t_enemy := Enemy_updateEffects (t_enemy t2)\<rparr>;
          skipEnemyTurn = (length special > 0 \<and> className (t_player t3) = TimeWeaver
                           \<and> specialActivated t3);
          t4 = (if \<not> skipEnemyTurn then enemyActs env t3 else t3)
      in playerUpkeep t4)"

text \<open>Lines 366--381: the player's defeat, or the reset for the next turn.\<close>

definition endOfTurn :: "environment \<Rightarrow> gameManager \<Rightarrow> turn \<Rightarrow> turnResult \<times> gameManager" where
  "endOfTurn env gm t5 =
     (if \<not> isAlive (t_player t5)
      then handlePlayerDefeat env (combatLog t5) (commit t5 gm)
      else (TurnDone (combatLog t5) (currentHP (t_player t5)) (currentHP (t_enemy t5)),
            resetForNextTurn (commit t5 gm)))"

text \<open>
  \<^verbatim>\<open>executeTurn\<close>. \<open>None\<close> stands for a TypeError: no player or no enemy, a Chaos
  Mage passive or a spawn with a draw outside \<open>[0, 1)\<close>.
\<close>

definition executeTurn ::
  "environment \<Rightarrow> gameManager \<Rightarrow> (turnResult \<times> gameManager) option" where
  "executeTurn env gm =
     (if \<not> canExecuteTurn gm
      then Some (Rejected ''Assign at least one die before executing turn.'', gm)
      else
        (case (g_player gm, g_enemy gm) of
           (Some p, Some e) \<Rightarrow>
             (let special = as_special (assignedDice gm);
                  t0 = turnStart gm p e;
                  ctx = turnContext gm t0
              in case resolvePassive env ctx t0 of
                   None \<Rightarrow> None
                 | Some t1 \<Rightarrow>
                     (let t2 = playerAttacks (criticalStrike env (resolveSpecial env ctx special t1))
                      in if \<not> isAlive (t_enemy t2)
                         then handleEnemyDefeat env (combatLog t2) (commit t2 gm)
                         else Some (endOfTurn env gm (enemyPhase env special t2))))
         | _ \<Rightarrow> None))"

subsection \<open>GameManager: the merchant and the run\<close>

definition purchaseItem ::
  "int \<Rightarrow> gameManager \<Rightarrow> (purchaseResult \<times> gameManager) option" where
  "purchaseItem itemIndex gm =
     (case g_merchant gm of
        None \<Rightarrow> Some (PurchaseFailed ''No merchant available.'', gm)
      | Some m \<Rightarrow>
          if gameState gm \<noteq> AtMerchant then Some (PurchaseFailed ''No merchant available.'', gm)
          else
            (case g_player gm of
               None \<Rightarrow> None
             | Some p \<Rightarrow>
                 (case Merchant_purchaseItem itemIndex p m of
                    (Purchased it c, p1, m1) \<Rightarrow>
                      Some (Purchased it c,
                            gm\<lparr>g_player := Some p1, g_merchant := Some m1,
                               stats := (stats gm)\<lparr>itemsPurchased := itemsPurchased (stats gm) + 1\<rparr>\<rparr>)
                  | (PurchaseFailed msg, p1, m1) \<Rightarrow>
                      Some (PurchaseFailed msg, gm\<lparr>g_player := Some p1, g_merchant := Some m1\<rparr>))))"

definition leaveMerchant :: "environment \<Rightarrow> gameManager \<Rightarrow> (bool \<times> gameManager) option" where
  "leaveMerchant env gm =
     (if gameState gm \<noteq> AtMerchant then Some (False, gm)
      else map_option (\<lambda>gm1. (True, gm1)) (spawnEnemy env (gm\<lparr>gameState := Combat\<rparr>)))"

definition newStats :: "className option \<Rightarrow> stats" where
  "newStats c = \<lparr> enemiesDefeated = 0, totalDamageDealt = 0, totalDamageTaken = 0,
     goldEarned = 0, itemsPurchased = 0, highestRound = 0, st_className = c \<rparr>"

text \<open>The constructor; the store is whatever \<^verbatim>\<open>localStorage\<close> holds.\<close>

definition GameManager_new :: "runData list option \<Rightarrow> gameManager" where
  "GameManager_new store =
     \<lparr> g_player = None, g_enemy = None, g_merchant = None, currentRound = 0, gameState = Menu,
       merchantEncounterCount = 0, rolledDice = [], assignedDice = noAssignedDice,
       hasRolled = False, stats = newStats None, bestRunsStore = store \<rparr>"

text \<open>
  \<^verbatim>\<open>startNewRun(className)\<close>. The dice of the class come from the catalogue of
  \<^verbatim>\<open>DiceFactory\<close>, which is data and is passed in.
\<close>

definition startNewRun ::
  "environment \<Rightarrow> className \<Rightarrow> dice list \<Rightarrow> gameManager \<Rightarrow> gameManager option" where
  "startNewRun env c classDice gm =
     spawnEnemy env (gm\<lparr>g_player := Some (Player_new c classDice), currentRound := 1,
                        gameState := Combat, merchantEncounterCount := 0, hasRolled := False,
                        stats := newStats (Some c)\<rparr>)"

definition resetGame :: "gameManager \<Rightarrow> gameManager" where
  "resetGame gm =
     resetDiceAssignments (gm\<lparr>g_player := None, g_enemy := None, g_merchant := None,
                               currentRound := 0, gameState := Menu, merchantEncounterCount := 0,
                               hasRolled := False\<rparr>)"

subsection \<open>Dice of three classes\<close>

text \<open>
  The dice that \<^verbatim>\<open>DiceFactory\<close> gives the Blade Dancer, the Frost Weaver and the
  Chaos Mage, for the examples below. A die's id is made from the clock and a random
  number; the examples name the dice \<open>die1\<close>, \<open>die2\<close> and \<open>die3\<close>.
\<close>

definition DiceFace_new :: "faceType \<Rightarrow> int \<Rightarrow> string option \<Rightarrow> diceFace" where
  "DiceFace_new t v s = \<lparr> f_type = t, f_value = v, f_symbol = s \<rparr>"

definition atk :: "int \<Rightarrow> diceFace" where
  "atk v = DiceFace_new FAttack v None"

definition dfn :: "int \<Rightarrow> diceFace" where
  "dfn v = DiceFace_new FDefense v None"

definition sym :: "string \<Rightarrow> diceFace" where
  "sym s = DiceFace_new FSpecial 0 (Some s)"

text \<open>
  \<^verbatim>\<open>new DiceFace('crit')\<close> and \<^verbatim>\<open>new DiceFace('magic')\<close> leave the value
  \<^verbatim>\<open>undefined\<close>; it is never read on the attack or defense slot, where only attack and
  defense faces count.
\<close>

definition crit :: diceFace where
  "crit = DiceFace_new FCrit 0 None"

definition magic :: diceFace where
  "magic = DiceFace_new FMagic 0 None"

definition Dice_new :: "string \<Rightarrow> diceFace list \<Rightarrow> dice" where
  "Dice_new i fs = \<lparr> d_id = i, faces = fs, currentFace = None, isRolled = False \<rparr>"

definition createBladeDancerDice :: "dice list" where
  "createBladeDancerDice =
     [Dice_new ''die1'' [atk 8, atk 6, atk 10, crit, dfn 3, atk 7],
      Dice_new ''die2'' [atk 6, crit, atk 5, crit, atk 9, dfn 4],
      Dice_new ''die3'' [atk 7, dfn 5, atk 8, crit, dfn 6, atk 6]]"

definition createFrostWeaverDice :: "dice list" where
  "createFrostWeaverDice =
     [Dice_new ''die1'' [sym ''frost'', dfn 8, atk 5, sym ''frost'', magic, dfn 7],
      Dice_new ''die2'' [atk 6, sym ''frost'', dfn 9, magic, atk 7, sym ''frost''],
      Dice_new ''die3'' [sym ''frost'', atk 6, dfn 8, atk 7, magic, dfn 6]]"


subsection \<open>Vocabulary of the properties\<close>

text \<open>
  An environment for the examples: the draw for the critical strike, the Imp and the dodge
  is \<open>1/2\<close>, every other draw is \<open>0\<close> (the first face of each die, the first entry of
  each list).
\<close>

definition env0 :: environment where
  "env0 = \<lparr> rndChaosEffect = 0, rndChaosBolt = 0, rndCrit = 1/2, rndSpawn = 0, rndImp = 1/2,
            rndDodge = 1/2, rndRoll = (\<lambda>i. 0), drawnInventory = [], today = ''11/2/2026'' \<rparr>"

text \<open>
  The damage that one pass of \<^verbatim>\<open>Enemy.updateEffects\<close> deals to an enemy of defense
  \<open>d\<close>: every damaging effect counts for its amount less \<open>d\<close>, and for nothing when
  \<open>d\<close> is the larger.
\<close>

definition tickDamage :: "int \<Rightarrow> effect list \<Rightarrow> int" where
  "tickDamage d xs =
     (\<Sum>x\<leftarrow>xs. if truthy (fx_damage x) then max 0 (orZero (fx_damage x) - d) else 0)"

text \<open>
  The merchant variant as the specification enumerates it: 6 is checked first, then 9,
  then 12.
\<close>

definition claimedMerchantKind :: "int \<Rightarrow> merchantKind" where
  "claimedMerchantKind n =
     (if n mod 6 = 0 then DiscountMerchant
      else if n mod 9 = 0 then BlackMarketMerchant
      else if n mod 12 = 0 then MysteriousMerchant
      else NormalMerchant)"

text \<open>
  The catalogue of the enemies, in the order of the lists of \<^verbatim>\<open>createMinion\<close>,
  \<^verbatim>\<open>createElite\<close> and \<^verbatim>\<open>createBoss\<close>: name, base hit points, base attack and
  defense, as each creator passes them to \<^verbatim>\<open>scaleStats\<close> and to the constructor.
\<close>

definition minionTable :: "(string \<times> int \<times> int \<times> int) list" where
  "minionTable =
     [(''Goblin'', 30, 8, 0), (''Skeleton'', 25, 10, 2), (''Giant Rat'', 20, 6, 0),
      (''Vampire Bat'', 22, 7, 0), (''Slime'', 35, 5, 1), (''Zombie'', 40, 9, 1),
      (''Dire Wolf'', 28, 11, 0), (''Giant Spider'', 26, 8, 1), (''Bandit'', 32, 10, 0),
      (''Cultist'', 27, 7, 0), (''Imp'', 24, 9, 0), (''Ghost'', 23, 8, 0),
      (''Wisp'', 20, 7, 0), (''Poison Mushroom'', 38, 6, 2), (''Giant Crab'', 33, 8, 3),
      (''Viper'', 25, 9, 0), (''Giant Scorpion'', 29, 10, 1), (''Harpy'', 27, 11, 0),
      (''Gremlin'', 26, 9, 0), (''Shadowling'', 24, 10, 0), (''Fire Elemental'', 30, 12, 0),
      (''Ice Elemental'', 32, 9, 2), (''Wind Elemental'', 28, 11, 0), (''Earth Elemental'', 45, 8, 4),
      (''Corrupted Knight'', 35, 11, 3)]"

definition eliteTable :: "(string \<times> int \<times> int \<times> int) list" where
  "eliteTable =
     [(''Stone Golem'', 80, 12, 5), (''Dark Mage'', 60, 18, 2), (''Berserker'', 70, 20, 1),
      (''Necromancer'', 55, 14, 2), (''Shadow Assassin'', 50, 25, 0), (''Warlock'', 65, 16, 3),
      (''Vampire Lord'', 60, 17, 2), (''Werewolf'', 75, 19, 2), (''Minotaur'', 85, 18, 4),
      (''Hydra'', 70, 15, 3), (''Phoenix'', 55, 20, 1), (''Frost Giant'', 90, 16, 5),
      (''Demon Lord'', 75, 22, 3), (''Dragon Knight'', 80, 20, 6), (''Lich'', 65, 18, 4)]"

definition bossTable :: "(string \<times> int \<times> int \<times> int) list" where
  "bossTable =
     [(''Ancient Dragon'', 150, 25, 8), (''Demon King'', 140, 28, 6), (''Ancient Lich'', 120, 22, 7),
      (''Titan Golem'', 180, 20, 10), (''Void Lord'', 130, 26, 7), (''Archmage'', 110, 30, 5),
      (''Dark Overlord'', 145, 27, 8), (''Celestial Being'', 125, 24, 6), (''Eldritch Horror'', 135, 29, 7),
      (''Primordial Beast'', 160, 23, 9)]"

definition enemyTable :: "enemyType \<Rightarrow> (string \<times> int \<times> int \<times> int) list" where
  "enemyTable ty = (case ty of Minion \<Rightarrow> minionTable | Elite \<Rightarrow> eliteTable | Boss \<Rightarrow> bossTable)"

text \<open>
  A creator makes the enemy of a row of the catalogue: in every round \<open>k\<close> the enemy has
  the name and the defense of the row and the category \<open>ty\<close>, and the hit points
  (maximal and current) and the attack that \<^verbatim>\<open>scaleStats\<close> computes from the base values
  of the row.
\<close>

definition madeFrom :: "enemyType \<Rightarrow> (int \<Rightarrow> enemy) \<Rightarrow> string \<times> int \<times> int \<times> int \<Rightarrow> bool" where
  "madeFrom ty creator row =
     (case row of (nm, baseHP, baseAtk, df) \<Rightarrow>
        \<forall>k. ename (creator k) = nm \<and> etype (creator k) = ty \<and> defense (creator k) = df
           \<and> maxHP (creator k) = fst (scaleStats baseHP baseAtk k)
           \<and> currentHP (creator k) = maxHP (creator k)
           \<and> attack (creator k) = snd (scaleStats baseHP baseAtk k)
           \<and> baseAttack (creator k) = attack (creator k))"

text \<open>The scaling formula of claim C7 in exact arithmetic: \<open>floor (base * (1 + r * 0.15))\<close>.\<close>

definition claimedScale :: "int \<Rightarrow> int \<Rightarrow> int" where
  "claimedScale base r = \<lfloor>of_int base * (1 + of_int r * (15/100 :: rat))\<rfloor>"



subsection \<open>Example games\<close>

text \<open>
  What the presentation layer does for one turn: roll the dice, assign some of them, and
  execute the turn.
\<close>

definition playTurn ::
  "environment \<Rightarrow> (string \<times> slot) list \<Rightarrow> gameManager \<Rightarrow> (turnResult \<times> gameManager) option" where
  "playTurn env assignments gm =
     executeTurn env
       (fold (\<lambda>(dieId, sl) g. snd (assignDie dieId sl g)) assignments (snd (rollDice env gm)))"

definition thenPlay ::
  "environment \<Rightarrow> (string \<times> slot) list \<Rightarrow> gameManager option \<Rightarrow> gameManager option" where
  "thenPlay env assignments g =
     (case g of None \<Rightarrow> None | Some gm \<Rightarrow> map_option snd (playTurn env assignments gm))"

text \<open>Like \<open>env0\<close>, but every die shows its second face.\<close>

definition env1 :: environment where
  "env1 = env0\<lparr>rndRoll := (\<lambda>i. 1/4)\<rparr>"

text \<open>
  A Blade Dancer meets a Goblin (attack 9) and, turn after turn, puts the second die,
  which shows a crit face, on the attack slot: the player deals nothing and loses 9 hit
  points per turn. \<open>bladeGame n\<close> is the game after \<open>n\<close> such turns; the twelfth one
  is the player's defeat.
\<close>

definition bladeGame :: "nat \<Rightarrow> gameManager option" where
  "bladeGame n =
     ((thenPlay env1 [(''die2'', AttackSlot)]) ^^ n)
       (startNewRun env0 BladeDancer createBladeDancerDice (GameManager_new None))"

text \<open>
  A Frost Weaver meets a Ghost (attack 9, \<^verbatim>\<open>defend\<close> on every fourth action) and
  defends for three turns with a defense face of 8. \<open>ghostGame\<close> is the game after
  these three turns.
\<close>

definition ghostGame :: "gameManager option" where
  "ghostGame =
     thenPlay env1 [(''die1'', DefenseSlot)]
       (thenPlay env1 [(''die1'', DefenseSlot)]
         (thenPlay env1 [(''die1'', DefenseSlot)]
           (startNewRun (env0\<lparr>rndSpawn := 15/32\<rparr>) FrostWeaver createFrostWeaverDice
              (GameManager_new None))))"

text \<open>
  A Frost Weaver meets a Giant Spider (attack 9, a Poison Bite of 3 per turn on every
  third action) and defends with a defense face of 8 in every turn. \<open>spiderGame n\<close> is
  the game after \<open>n\<close> turns.
\<close>

definition spiderGame :: "nat \<Rightarrow> gameManager option" where
  "spiderGame n =
     ((thenPlay env1 [(''die1'', DefenseSlot)]) ^^ n)
       (startNewRun (env0\<lparr>rndSpawn := 5/16\<rparr>) FrostWeaver createFrostWeaverDice
          (GameManager_new None))"


text \<open>A best-runs list that is full: ten runs that survived five rounds.\<close>

definition tenRuns :: "runData list" where
  "tenRuns = replicate 10 \<lparr> rd_className = Some FrostWeaver, rd_round = 5, rd_enemiesDefeated = 5,
                             rd_damageDealt = 200, rd_gold = 50, rd_date = ''11/1/2026'' \<rparr>"









text \<open>The effect that the Pyromantic's Inferno puts on the enemy.\<close>

definition infernoBurn :: effect where
  "infernoBurn = (mkEffect ''Burn'')\<lparr>fx_damage := Some 10, fx_duration := Some 3\<rparr>"

text \<open>A game in its first round whose best-runs store is full.\<close>

definition fullStoreGame :: gameManager where
  "fullStoreGame =
     (GameManager_new (Some tenRuns))\<lparr>currentRound := 1, gameState := Combat,
                                      stats := newStats (Some BladeDancer)\<rparr>"

text \<open>
  A game in its sixth round whose store holds ten runs of 9, 8, 7, 6, 5, 5, 4, 3, 2 and 1
  rounds.
\<close>

definition variedRuns :: "runData list" where
  "variedRuns =
     map (\<lambda>k. \<lparr> rd_className = Some FrostWeaver, rd_round = k, rd_enemiesDefeated = k,
                  rd_damageDealt = 40 * k, rd_gold = 10 * k, rd_date = ''11/1/2026'' \<rparr>)
       [9, 8, 7, 6, 5, 5, 4, 3, 2, 1]"

definition variedStoreGame :: gameManager where
  "variedStoreGame =
     (GameManager_new (Some variedRuns))\<lparr>currentRound := 6, gameState := Combat,
                                         stats := newStats (Some BladeDancer)\<rparr>"

section \<open>Properties\<close>

subsection \<open>Reading optional properties\<close>

lemma truthy_Some [simp]: "truthy (Some v) = (v \<noteq> 0)"
  by (simp add: truthy_def)

lemma truthy_None [simp]: "truthy None = False"
  by (simp add: truthy_def)

lemma orZero_Some [simp]: "orZero (Some v) = v"
  by (simp add: orZero_def)

lemma orZero_None [simp]: "orZero None = 0"
  by (simp add: orZero_def)


subsection \<open>Rounding\<close>

text \<open>Equations for the evaluation of examples, which keep every number a reduced fraction.\<close>

lemma normal_id: "normal x = x"
proof -
  obtain p q where pq: "quotient_of x = (p, q)" by (cases "quotient_of x")
  then have "x = of_int p / of_int q" by (rule quotient_of_div)
  then show ?thesis using pq by (simp add: normal_def Fract_of_int_quotient)
qed

lemma pow2_code [code]:
  "pow2 k = (if 0 \<le> k then Fract (2 ^ nat k) 1 else Fract 1 (2 ^ nat (- k)))"
  by (simp add: pow2_def Fract_of_int_quotient)

lemma roundEven_code [code]:
  "roundEven q = (let q1 = normal q; f = \<lfloor>q1\<rfloor>; d = normal (q1 - of_int f)
                  in if d < 1/2 then f else if 1/2 < d then f + 1 else if even f then f else f + 1)"
  by (simp add: roundEven_def normal_id)

lemma round64_code [code]:
  "round64 x = (let x1 = normal x in
                if x1 = 0 then 0
                else let a = normal \<bar>x1\<bar>; ulp = normal (pow2 (max (expo a) (- 1022) - 52))
                     in normal (sgn x1 * of_int (roundEven (a / ulp)) * ulp))"
  by (simp add: round64_def normal_id Let_def)

text \<open>
  The exponent \<open>e\<close> of a positive number \<open>x\<close> is the one with \<open>2^e \<le> x < 2^(e+1)\<close>, and
  \<open>round64 x\<close> is within half a unit in the last place of \<open>x\<close>. A number that stays a
  little below a natural number \<open>n\<close> is rounded to a number below \<open>n\<close>.
\<close>

lemma pow2_powi: "pow2 k = 2 powi k"
  by (simp add: pow2_def power_int_def power_one_over inverse_eq_divide)

lemma pow2_pos: "0 < pow2 k"
  by (simp add: pow2_powi)

lemma pow2_mono: "a \<le> b \<Longrightarrow> pow2 a \<le> pow2 b"
  by (simp add: pow2_powi power_int_increasing)

lemma pow2_diff: "pow2 (a - b) = pow2 a / pow2 b"
  by (simp add: pow2_powi power_int_diff)

lemma expo_le:
  assumes "0 < x"
  shows "pow2 (expo x) \<le> x"
proof -
  obtain p q where pq: "quotient_of x = (p, q)" by (cases "quotient_of x")
  have q: "0 < q" using pq by (rule quotient_of_denom_pos)
  have x: "x = of_int p / of_int q" using pq by (rule quotient_of_div)
  from assms x q have p: "0 < p" by (simp add: zero_less_divide_iff)
  let ?e = "bitlen p - bitlen q"
  have bp: "2 ^ nat (bitlen p - 1) \<le> p" using bitlen_bounds [OF p] by simp
  have bq: "q < 2 ^ nat (bitlen q)" using bitlen_bounds [OF q] by simp
  have p1: "1 \<le> bitlen p" using p by (simp add: bitlen_alt_def)
  have "pow2 (?e - 1) = pow2 (bitlen p - 1) / pow2 (bitlen q)"
    using pow2_diff [of "bitlen p - 1" "bitlen q"] by (simp add: algebra_simps)
  also have "\<dots> = (2 ^ nat (bitlen p - 1)) / (2 ^ nat (bitlen q))"
    using p1 bitlen_nonneg [of q] by (simp add: pow2_def)
  also have "\<dots> \<le> of_int p / of_int q"
  proof (rule frac_le)
    show "(0::rat) \<le> of_int p" using p by simp
    have "(of_int (2 ^ nat (bitlen p - 1)) :: rat) \<le> of_int p" using bp by (simp only: of_int_le_iff)
    then show "(2::rat) ^ nat (bitlen p - 1) \<le> of_int p" by simp
    show "(0::rat) < of_int q" using q by simp
    have "(of_int q :: rat) \<le> of_int (2 ^ nat (bitlen q))" using bq by (simp only: of_int_le_iff)
    then show "(of_int q :: rat) \<le> 2 ^ nat (bitlen q)" by simp
  qed
  finally have low: "pow2 (?e - 1) \<le> x" using x by simp
  show ?thesis
    using low pq by (simp add: expo_def Let_def)
qed

lemma expo_less:
  assumes "0 < x"
  shows "x < pow2 (expo x + 1)"
proof -
  obtain p q where pq: "quotient_of x = (p, q)" by (cases "quotient_of x")
  have q: "0 < q" using pq by (rule quotient_of_denom_pos)
  have x: "x = of_int p / of_int q" using pq by (rule quotient_of_div)
  from assms x q have p: "0 < p" by (simp add: zero_less_divide_iff)
  let ?e = "bitlen p - bitlen q"
  have bp: "p < 2 ^ nat (bitlen p)" using bitlen_bounds [OF p] by simp
  have bq: "2 ^ nat (bitlen q - 1) \<le> q" using bitlen_bounds [OF q] by simp
  have q1: "1 \<le> bitlen q" using q by (simp add: bitlen_alt_def)
  have "of_int p / of_int q < (2 ^ nat (bitlen p)) / (2 ^ nat (bitlen q - 1) :: rat)"
  proof (rule frac_less)
    show "(0::rat) \<le> of_int p" using p by simp
    have "(of_int p :: rat) < of_int (2 ^ nat (bitlen p))" using bp by (simp only: of_int_less_iff)
    then show "(of_int p :: rat) < 2 ^ nat (bitlen p)" by simp
    show "(0::rat) < 2 ^ nat (bitlen q - 1)" by simp
    have "(of_int (2 ^ nat (bitlen q - 1)) :: rat) \<le> of_int q" using bq by (simp only: of_int_le_iff)
    then show "(2::rat) ^ nat (bitlen q - 1) \<le> of_int q" by simp
  qed
  also have "(2 ^ nat (bitlen p)) / (2 ^ nat (bitlen q - 1) :: rat) = pow2 (bitlen p) / pow2 (bitlen q - 1)"
    using q1 bitlen_nonneg [of p] by (simp add: pow2_def)
  also have "\<dots> = pow2 (?e + 1)"
    using pow2_diff [of "bitlen p" "bitlen q - 1"] by (simp add: algebra_simps)
  finally have up: "x < pow2 (?e + 1)" using x by simp
  show ?thesis
    using up pq by (auto simp: expo_def Let_def not_le)
qed

lemma roundEven_le: "q < of_int M - 1/2 \<Longrightarrow> roundEven q \<le> M - 1"
  unfolding roundEven_def Let_def
  by (auto simp: floor_le_iff le_floor_iff) linarith+

lemma roundEven_nonneg: "0 \<le> q \<Longrightarrow> 0 \<le> roundEven q"
  unfolding roundEven_def Let_def by auto

lemma roundEven_nearest: "\<bar>of_int (roundEven q) - q\<bar> \<le> 1/2"
proof -
  have "of_int \<lfloor>q\<rfloor> \<le> q" "q < of_int \<lfloor>q\<rfloor> + 1" by linarith+
  then show ?thesis
    unfolding roundEven_def Let_def by (auto simp: abs_le_iff)
qed

lemma round64_nearest:
  "\<bar>round64 x - x\<bar> \<le> pow2 (max (expo \<bar>x\<bar>) (- 1022) - 52) / 2"
proof (cases "x = 0")
  case True
  then show ?thesis using pow2_pos [of "max (expo \<bar>x\<bar>) (- 1022) - 52"] by (simp add: round64_def)
next
  case False
  define ulp where "ulp = pow2 (max (expo \<bar>x\<bar>) (- 1022) - 52)"
  have ulp0: "0 < ulp" by (simp add: ulp_def pow2_pos)
  define m where "m = roundEven (\<bar>x\<bar> / ulp)"
  have r: "round64 x = sgn x * (of_int m * ulp)"
    using False by (simp add: round64_def Let_def ulp_def m_def)
  have "x = sgn x * \<bar>x\<bar>" by (simp add: mult_sgn_abs)
  then have "round64 x - x = sgn x * (of_int m * ulp - \<bar>x\<bar>)"
    using r by (simp add: algebra_simps)
  then have "\<bar>round64 x - x\<bar> = \<bar>of_int m * ulp - \<bar>x\<bar>\<bar>"
    using False by (simp add: abs_mult abs_sgn_eq)
  also have "of_int m * ulp - \<bar>x\<bar> = (of_int m - \<bar>x\<bar> / ulp) * ulp"
    using ulp0 by (simp add: algebra_simps)
  also have "\<bar>(of_int m - \<bar>x\<bar> / ulp) * ulp\<bar> = \<bar>of_int m - \<bar>x\<bar> / ulp\<bar> * ulp"
    using ulp0 by (simp add: abs_mult)
  also have "\<dots> \<le> 1/2 * ulp"
    using roundEven_nearest [of "\<bar>x\<bar> / ulp"] ulp0 unfolding m_def
    by (intro mult_right_mono) simp_all
  finally show ?thesis by (simp add: ulp_def)
qed

lemma round64_below:
  fixes n :: nat
  assumes x0: "0 \<le> x" and xn: "x \<le> of_nat n * (1 - 1 / 2 ^ 53)" and n0: "0 < n" and n53: "n < 2 ^ 53"
  shows "0 \<le> round64 x \<and> round64 x < of_nat n"
proof (cases "x = 0")
  case True
  then show ?thesis using n0 by (simp add: round64_def)
next
  case False
  with x0 have xp: "0 < x" by simp
  have xlt: "x < of_nat n"
  proof -
    have "of_nat n * (1 - 1 / 2 ^ 53) < (of_nat n :: rat)" using n0 by (simp add: algebra_simps)
    with xn show ?thesis by simp
  qed
  define e where "e = max (expo x) (- 1022)"
  define ulp where "ulp = pow2 (e - 52)"
  have ulp0: "0 < ulp" by (simp add: ulp_def pow2_pos)
  have ex: "pow2 (expo x) \<le> x" by (rule expo_le [OF xp])
  have n53': "(of_nat n :: rat) < pow2 53"
  proof -
    have "(of_nat n :: rat) < of_nat (2 ^ 53)" using n53 by (simp only: of_nat_less_iff)
    then show ?thesis by (simp add: pow2_def)
  qed
  have e52: "expo x \<le> 52"
  proof (rule ccontr)
    assume "\<not> expo x \<le> 52"
    then have "pow2 53 \<le> pow2 (expo x)" by (intro pow2_mono) simp
    with ex xlt n53' show False by simp
  qed
  then have e52': "e \<le> 52" by (simp add: e_def)
  have pe: "pow2 e < of_nat n"
  proof (cases "expo x \<le> - 1022")
    case True
    then have "e = - 1022" by (simp add: e_def)
    then have "pow2 e < 1" by (simp add: pow2_def)
    also have "(1::rat) \<le> of_nat n" using n0 by simp
    finally show ?thesis .
  next
    case False
    then have "e = expo x" by (simp add: e_def)
    with ex xlt show ?thesis by simp
  qed
  define M :: int where "M = int n * 2 ^ nat (52 - e)"
  have ulp_eq: "ulp = 1 / 2 ^ nat (52 - e)"
    using e52' by (auto simp: ulp_def pow2_def)
  have Mn: "of_int M * ulp = (of_nat n :: rat)"
    by (simp add: M_def ulp_eq)
  have half: "ulp / 2 < of_nat n / 2 ^ 53"
  proof -
    have "ulp = pow2 e / pow2 52" by (simp add: ulp_def pow2_diff)
    then have "ulp / 2 = pow2 e / 2 ^ 53" by (simp add: pow2_def)
    also have "\<dots> < of_nat n / 2 ^ 53" using pe by (simp add: divide_strict_right_mono)
    finally show ?thesis .
  qed
  have "x < of_nat n - ulp / 2"
  proof -
    have "x \<le> of_nat n - of_nat n / 2 ^ 53" using xn by (simp add: algebra_simps)
    with half show ?thesis by simp
  qed
  then have "x < (of_int M - 1/2) * ulp" using Mn by (simp add: algebra_simps)
  then have "x / ulp < of_int M - 1/2" using ulp0 by (simp add: pos_divide_less_eq)
  then have r1: "roundEven (x / ulp) \<le> M - 1" by (rule roundEven_le)
  have r0: "0 \<le> roundEven (x / ulp)" using xp ulp0 by (intro roundEven_nonneg) simp
  have r: "round64 x = of_int (roundEven (x / ulp)) * ulp"
    using xp by (simp add: round64_def Let_def ulp_def e_def)
  have "of_int (roundEven (x / ulp)) * ulp \<le> of_int (M - 1) * ulp"
    using r1 ulp0 by (intro mult_right_mono) (simp_all only: of_int_le_iff less_imp_le)
  also have "\<dots> = of_nat n - ulp" using Mn by (simp add: algebra_simps)
  also have "\<dots> < of_nat n" using ulp0 by simp
  finally have "round64 x < of_nat n" using r by simp
  moreover have "0 \<le> round64 x" using r r0 ulp0 by simp
  ultimately show ?thesis by simp
qed

text \<open>
  A number with a significand below \<open>2^53\<close> is a binary64 number, which the rounding
  leaves as it is: in particular the integers below \<open>2^53\<close> and their halves.
\<close>

lemma roundEven_of_int: "roundEven (of_int m) = m"
  by (simp add: roundEven_def)

lemma round64_dyadic:
  assumes p: "\<bar>p\<bar> < 2 ^ 53" and k: "- 1074 \<le> k"
  shows "round64 (of_int p * pow2 k) = of_int p * pow2 k"
proof (cases "p = 0")
  case True
  then show ?thesis by (simp add: round64_def)
next
  case False
  let ?x = "of_int p * pow2 k :: rat"
  define a where "a = \<bar>?x\<bar>"
  have a: "a = of_int \<bar>p\<bar> * pow2 k"
    using pow2_pos [of k] by (simp add: a_def abs_mult)
  have a0: "0 < a" using False pow2_pos [of k] by (simp add: a)
  define e where "e = max (expo a) (- 1022)"
  define ulp where "ulp = pow2 (e - 52)"
  have "(of_int \<bar>p\<bar> :: rat) < of_int (2 ^ 53)" using p by (simp only: of_int_less_iff)
  then have "(of_int \<bar>p\<bar> :: rat) < pow2 53" by (simp add: pow2_def)
  then have "a < pow2 53 * pow2 k" using pow2_pos [of k] by (simp add: a)
  also have "pow2 53 * pow2 k = pow2 (53 + k)" by (simp add: pow2_powi power_int_add)
  finally have "pow2 (expo a) < pow2 (53 + k)" using expo_le [OF a0] by simp
  then have "expo a < 53 + k" using pow2_mono [of "53 + k" "expo a"] by (cases "expo a < 53 + k") auto
  then have ek: "e \<le> k + 52" using k by (simp add: e_def)
  define m :: int where "m = \<bar>p\<bar> * 2 ^ nat (k + 52 - e)"
  have "pow2 k / ulp = pow2 (k + 52 - e)"
    using pow2_diff [of k "e - 52"] by (simp add: ulp_def algebra_simps)
  also have "\<dots> = 2 ^ nat (k + 52 - e)" using ek by (simp add: pow2_def)
  finally have q0: "pow2 k / ulp = 2 ^ nat (k + 52 - e)" .
  have "a / ulp = of_int \<bar>p\<bar> * (pow2 k / ulp)" by (simp add: a)
  also have "\<dots> = of_int m" by (simp only: q0 m_def of_int_mult of_int_power of_int_numeral)
  finally have q: "a / ulp = of_int m" .
  have ulp0: "0 < ulp" by (simp add: ulp_def pow2_pos)
  have x0: "?x \<noteq> 0" using a0 by (simp add: a_def)
  have "round64 ?x = sgn ?x * of_int (roundEven (a / ulp)) * ulp"
    using x0 by (simp only: round64_def Let_def a_def e_def ulp_def if_False)
  also have "\<dots> = sgn ?x * (of_int m * ulp)" by (simp add: q roundEven_of_int)
  also have "of_int m * ulp = a" using q ulp0 by (simp add: field_simps)
  also have "sgn ?x * a = ?x" by (simp add: a_def mult_sgn_abs)
  finally show ?thesis .
qed

lemma round64_half: "round64 (1/2) = 1/2"
  using round64_dyadic [of 1 "-1"] by (simp add: pow2_def)

lemma round64_of_int: "\<bar>p\<bar> < 2 ^ 53 \<Longrightarrow> round64 (of_int p) = of_int p"
  using round64_dyadic [of p 0] by (simp add: pow2_def)

lemma round64_half_of_int: "\<bar>v\<bar> < 2 ^ 53 \<Longrightarrow> round64 (of_int v * (1/2)) = of_int v / 2"
  using round64_dyadic [of v "-1"] by (simp add: pow2_def)

text \<open>
  A draw of \<^verbatim>\<open>Math.random()\<close> picks an element of a non-empty list: the rounded product
  of the draw and the length stays below the length. And a pick is an element.
\<close>

lemma pick_in_range:
  assumes "0 \<le> u" and "u \<le> 1 - 1 / 2 ^ 53" and "xs \<noteq> []" and "length xs < 2 ^ 53"
  shows "nat \<lfloor>round64 (u * of_nat (length xs))\<rfloor> < length xs
       \<and> pick u xs = Some (xs ! nat \<lfloor>round64 (u * of_nat (length xs))\<rfloor>)"
proof -
  let ?n = "length xs"
  let ?r = "round64 (u * of_nat ?n)"
  have n: "0 < ?n" using assms(3) by simp
  have "of_nat ?n * u \<le> of_nat ?n * (1 - 1 / 2 ^ 53)"
    using assms(2) by (intro mult_left_mono) simp_all
  then have "u * of_nat ?n \<le> of_nat ?n * (1 - 1 / 2 ^ 53)"
    by (simp only: mult.commute)
  moreover have "0 \<le> u * of_nat ?n" using assms(1) by simp
  ultimately have r: "0 \<le> ?r \<and> ?r < of_nat ?n"
    using n assms(4) by (intro round64_below)
  then have lo: "0 \<le> \<lfloor>?r\<rfloor>" by simp
  have hi: "\<lfloor>?r\<rfloor> < int ?n" using r by (simp add: floor_less_iff)
  have "nat \<lfloor>?r\<rfloor> < ?n" using lo hi by linarith
  then show ?thesis using lo hi by (simp add: pick_def Let_def)
qed

lemma pick_mem:
  assumes "pick u xs = Some x"
  shows "x \<in> set xs"
proof -
  let ?i = "\<lfloor>round64 (u * of_nat (length xs))\<rfloor>"
  from assms have r: "0 \<le> ?i" "?i < int (length xs)" and x: "x = xs ! nat ?i"
    by (auto simp: pick_def Let_def split: if_splits)
  from r have "nat ?i < length xs" by linarith
  then show ?thesis using x by simp
qed

subsection \<open>A turn after the run has ended\<close>

text \<open>
  \<^verbatim>\<open>handlePlayerDefeat\<close> sets the state to GameOver and leaves \<^verbatim>\<open>hasRolled\<close> and the
  assigned dice alone; a turn that \<^verbatim>\<open>canExecuteTurn\<close> admits is never rejected. So
  every defeat leaves a game in which \<^verbatim>\<open>executeTurn\<close> runs again.
\<close>

lemma handlePlayerDefeat_keeps_dice:
  "gameState (snd (handlePlayerDefeat env lg gm)) = GameOver
   \<and> hasRolled (snd (handlePlayerDefeat env lg gm)) = hasRolled gm
   \<and> assignedDice (snd (handlePlayerDefeat env lg gm)) = assignedDice gm"
  by (simp add: handlePlayerDefeat_def saveBestRun_def Let_def)

lemma canExecuteTurn_same_dice:
  "hasRolled g' = hasRolled g \<Longrightarrow> assignedDice g' = assignedDice g \<Longrightarrow>
   canExecuteTurn g' = canExecuteTurn g"
  by (auto simp: canExecuteTurn_def split: option.splits)

lemma handleEnemyDefeat_result:
  "handleEnemyDefeat env lg gm = Some (r, gm') \<Longrightarrow> \<exists>l s. r = EnemyDefeated l s"
  by (auto simp: handleEnemyDefeat_def Let_def split: option.splits if_splits prod.splits)

lemma endOfTurn_result:
  "(\<exists>l ph eh. fst (endOfTurn env gm t) = TurnDone l ph eh)
   \<or> (\<exists>l st. endOfTurn env gm t = handlePlayerDefeat env (combatLog t) (commit t gm)
             \<and> fst (endOfTurn env gm t) = PlayerDefeated l st)"
  by (simp add: endOfTurn_def handlePlayerDefeat_def Let_def)

lemma executeTurn_cases:
  assumes "canExecuteTurn gm" and "executeTurn env gm = Some (r, gm')"
  shows "(\<exists>l s. r = EnemyDefeated l s) \<or> (\<exists>t. endOfTurn env gm t = (r, gm'))"
proof -
  from assms obtain p e t1 where
    pe: "g_player gm = Some p" "g_enemy gm = Some e"
    and t1: "resolvePassive env (turnContext gm (turnStart gm p e)) (turnStart gm p e) = Some t1"
    by (auto simp: executeTurn_def Let_def split: option.splits)
  define t2 where "t2 = playerAttacks (criticalStrike env
      (resolveSpecial env (turnContext gm (turnStart gm p e)) (as_special (assignedDice gm)) t1))"
  have ex: "executeTurn env gm =
        (if \<not> isAlive (t_enemy t2) then handleEnemyDefeat env (combatLog t2) (commit t2 gm)
         else Some (endOfTurn env gm (enemyPhase env (as_special (assignedDice gm)) t2)))"
    using assms(1) pe t1 by (simp add: executeTurn_def Let_def t2_def)
  show ?thesis
  proof (cases "isAlive (t_enemy t2)")
    case True
    then have "endOfTurn env gm (enemyPhase env (as_special (assignedDice gm)) t2) = (r, gm')"
      using ex assms(2) by simp
    then show ?thesis by blast
  next
    case False
    then have "handleEnemyDefeat env (combatLog t2) (commit t2 gm) = Some (r, gm')"
      using ex assms(2) by simp
    then show ?thesis using handleEnemyDefeat_result by blast
  qed
qed

lemma executable_turn_is_not_rejected:
  assumes "canExecuteTurn gm" and "executeTurn env gm = Some (r, gm')"
  shows "success r"
proof -
  from executeTurn_cases [OF assms] show ?thesis
  proof
    assume "\<exists>l s. r = EnemyDefeated l s"
    then show ?thesis by auto
  next
    assume "\<exists>t. endOfTurn env gm t = (r, gm')"
    then obtain t where t: "endOfTurn env gm t = (r, gm')" by blast
    then show ?thesis
      by (auto simp: endOfTurn_def handlePlayerDefeat_def Let_def split: if_splits)
  qed
qed

lemma defeat_leaves_turn_executable:
  assumes "executeTurn env gm = Some (PlayerDefeated lg st, gm')"
  shows "gameState gm' = GameOver \<and> canExecuteTurn gm'"
proof -
  have c: "canExecuteTurn gm"
    using assms by (auto simp: executeTurn_def split: if_splits)
  from executeTurn_cases [OF c assms]
  obtain t where t: "endOfTurn env gm t = (PlayerDefeated lg st, gm')" by auto
  then have "handlePlayerDefeat env (combatLog t) (commit t gm) = (PlayerDefeated lg st, gm')"
    by (auto simp: endOfTurn_def split: if_splits)
  then have "gm' = snd (handlePlayerDefeat env (combatLog t) (commit t gm))"
    by simp
  moreover have "canExecuteTurn (commit t gm) = canExecuteTurn gm"
    by (rule canExecuteTurn_same_dice) (simp_all add: commit_def)
  ultimately show ?thesis
    using c handlePlayerDefeat_keeps_dice [of env "combatLog t" "commit t gm"]
      canExecuteTurn_same_dice [of gm' "commit t gm"]
    by simp
qed

text \<open>
  C1 says that \<^verbatim>\<open>executeTurn\<close> is rejected once the run has ended: a failure, and no
  change of state. The code does not do that. The only guard of \<^verbatim>\<open>executeTurn\<close> is
  \<^verbatim>\<open>canExecuteTurn\<close>, which reads \<^verbatim>\<open>hasRolled\<close> and the assigned dice, and
  \<^verbatim>\<open>handlePlayerDefeat\<close> resets neither. In the game \<open>bladeGame 12\<close> the twelfth turn
  was the player's defeat: the state is GameOver, the player has 0 hit points, one run is
  saved. Executing a turn again succeeds: the enemy acts a thirteenth time, the damage
  statistic grows from 108 to 117, and a second run is saved.
\<close>

theorem executeTurn_runs_after_game_over:
  "case bladeGame 12 of
     None \<Rightarrow> False
   | Some gm \<Rightarrow>
       gameState gm = GameOver
       \<and> map_option currentHP (g_player gm) = Some 0
       \<and> map_option turnCounter (g_enemy gm) = Some 12
       \<and> totalDamageTaken (stats gm) = 108
       \<and> length (loadBestRuns gm) = 1
       \<and> (case executeTurn env1 gm of
             None \<Rightarrow> False
           | Some (r, gm') \<Rightarrow>
               success r
               \<and> gameState gm' = GameOver
               \<and> map_option turnCounter (g_enemy gm') = Some 13
               \<and> totalDamageTaken (stats gm') = 117
               \<and> length (loadBestRuns gm') = 2)"
  by code_simp

subsection \<open>The player's effect tick\<close>

text \<open>
  C2 says that a tick applies every effect's damage and healing before the durations are
  counted down, for the player as for the enemy, so that a Poison or Burn on the player
  costs hit points on each of its turns. \<^verbatim>\<open>Enemy.updateEffects\<close> does so;
  \<^verbatim>\<open>Player.updateEffects\<close> only counts the durations down: for every player the tick
  leaves the hit points as they are. In \<open>spiderGame\<close> the spider's 9 against a defense of 8
  costs 1 hit point per turn. The Poison Bite of the third turn puts a Poison of 3 per
  turn on the player, at duration 2 after the tick of that turn; it is gone after the
  fifth turn, and the player has lost the 5 hit points of the five attacks and nothing
  else.
\<close>

theorem player_tick_applies_no_damage:
  "currentHP (Player_updateEffects p) = currentHP p
   \<and> (case spiderGame 3 of
         None \<Rightarrow> False
       | Some gm \<Rightarrow>
           map_option (\<lambda>pl. (currentHP pl, map (\<lambda>x. (fx_name x, fx_damage x, fx_duration x)) (effects pl)))
             (g_player gm) = Some (97, [(''Poison'', Some 3, Some 2)]))
   \<and> (case spiderGame 5 of
         None \<Rightarrow> False
       | Some gm \<Rightarrow>
           map_option (\<lambda>pl. (currentHP pl, effects pl)) (g_player gm) = Some (95, [])
           \<and> map_option (\<lambda>e. (ename e, attack e, turnCounter e)) (g_enemy gm)
               = Some (''Giant Spider'', 9, 5))"
proof (intro conjI)
  show "currentHP (Player_updateEffects p) = currentHP p"
    by (simp add: Player_updateEffects_def)
  show "case spiderGame 3 of
         None \<Rightarrow> False
       | Some gm \<Rightarrow>
           map_option (\<lambda>pl. (currentHP pl, map (\<lambda>x. (fx_name x, fx_damage x, fx_duration x)) (effects pl)))
             (g_player gm) = Some (97, [(''Poison'', Some 3, Some 2)])"
    by code_simp
  show "case spiderGame 5 of
         None \<Rightarrow> False
       | Some gm \<Rightarrow>
           map_option (\<lambda>pl. (currentHP pl, effects pl)) (g_player gm) = Some (95, [])
           \<and> map_option (\<lambda>e. (ename e, attack e, turnCounter e)) (g_enemy gm)
               = Some (''Giant Spider'', 9, 5)"
    by code_simp
qed

subsection \<open>Damage taken by an enemy\<close>

text \<open>
  C3. For every raw amount \<open>x\<close> dealt to an enemy with flat defense \<open>d\<close> and current hit
  points \<open>h\<close>, \<^verbatim>\<open>Enemy.takeDamage\<close> reports \<open>max 0 (x - d)\<close> and leaves
  \<open>max 0 (h - max 0 (x - d))\<close> hit points: the enemy loses exactly \<open>max 0 (x - d)\<close> when
  it has that many, and never ends below 0. With \<open>d = 5\<close> and \<open>x = 12\<close> the damage is
  exactly 7, and an enemy at 3 hit points ends at exactly 0.
\<close>

theorem enemy_takeDamage_mitigated:
  "fst (Enemy_takeDamage x e) = max 0 (x - defense e)
   \<and> currentHP (snd (Enemy_takeDamage x e)) = max 0 (currentHP e - max 0 (x - defense e))
   \<and> 0 \<le> currentHP (snd (Enemy_takeDamage x e))
   \<and> (max 0 (x - defense e) \<le> currentHP e \<longrightarrow>
        currentHP (snd (Enemy_takeDamage x e)) = currentHP e - max 0 (x - defense e))
   \<and> fst (Enemy_takeDamage 12 (e\<lparr>defense := 5\<rparr>)) = 7
   \<and> currentHP (snd (Enemy_takeDamage 12 (e\<lparr>defense := 5, currentHP := 3\<rparr>))) = 0"
  by (simp add: Enemy_takeDamage_def Let_def)

theorem enemy_takeDamage_mitigated_witness:
  "max 0 (12 - defense (Enemy_new ''Stone Golem'' Elite 92 13 5))
     \<le> currentHP (Enemy_new ''Stone Golem'' Elite 92 13 5)
   \<and> currentHP (snd (Enemy_takeDamage 12 (Enemy_new ''Stone Golem'' Elite 92 13 5))) = 85"
  using enemy_takeDamage_mitigated [of 12 "Enemy_new ''Stone Golem'' Elite 92 13 5"]
  by (simp add: Enemy_new_def)

subsection \<open>Hit points within bounds\<close>

text \<open>
  The primitives keep \<open>0 \<le> currentHP \<le> maxHP\<close>: damage of any amount, healing of a
  non-negative amount; and damage of a negative amount is damage of 0 (for an enemy, whose
  defense is never negative).
\<close>

lemma takeDamage_keeps_hp_ok:
  "hp_ok p \<Longrightarrow> hp_ok (snd (Player_takeDamage x p))"
  "hp_ok e \<Longrightarrow> hp_ok (snd (Enemy_takeDamage x e))"
  by (auto simp: hp_ok_def Player_takeDamage_def Enemy_takeDamage_def Let_def)

lemma heal_keeps_hp_ok: "0 \<le> x \<Longrightarrow> hp_ok a \<Longrightarrow> hp_ok (snd (heal x a))"
  by (auto simp: hp_ok_def heal_def Let_def)

lemma takeDamage_negative_is_zero:
  "x < 0 \<Longrightarrow> Player_takeDamage x p = Player_takeDamage 0 p"
  "x < 0 \<Longrightarrow> 0 \<le> defense e \<Longrightarrow> Enemy_takeDamage x e = Enemy_takeDamage 0 e"
  by (auto simp: Player_takeDamage_def Enemy_takeDamage_def Let_def)

text \<open>Blood Pact, bought \<open>n\<close> times.\<close>

lemma bloodPact_funpow:
  "currentHP p \<le> maxHP p \<Longrightarrow>
   maxHP ((addItem (ComboI BloodPact) ^^ n) p) = maxHP p - 5 * int n
   \<and> currentHP ((addItem (ComboI BloodPact) ^^ n) p) = min (currentHP p) (maxHP p - 5 * int n)"
  by (induction n) (auto simp: addItem_def Let_def)

text \<open>
  C4 says that every operation that changes hit points keeps \<open>0 \<le> currentHP \<le> maxHP\<close>,
  the application of an item included. Blood Pact lowers \<^verbatim>\<open>maxHP\<close> by 5 and caps
  \<^verbatim>\<open>currentHP\<close> at the new maximum, with no floor at 0: a new player, who satisfies the
  invariant, has \<open>currentHP = maxHP = -5\<close> after the twenty-first Blood Pact.
\<close>

theorem blood_pact_breaks_hp_invariant:
  "hp_ok (Player_new c ds)
   \<and> currentHP ((addItem (ComboI BloodPact) ^^ 21) (Player_new c ds)) = - 5
   \<and> maxHP ((addItem (ComboI BloodPact) ^^ 21) (Player_new c ds)) = - 5
   \<and> \<not> hp_ok ((addItem (ComboI BloodPact) ^^ 21) (Player_new c ds))"
  by (simp add: bloodPact_funpow hp_ok_def Player_new_def)

subsection \<open>The merchant variant\<close>

text \<open>
  When the round after a defeated enemy is a multiple of 3, \<^verbatim>\<open>handleEnemyDefeat\<close> counts
  one more merchant encounter and creates the merchant of that count.
\<close>

lemma merchant_of_handleEnemyDefeat:
  assumes "handleEnemyDefeat env lg gm = Some (r, gm')" and "(currentRound gm + 1) mod 3 = 0"
  shows "gameState gm' = AtMerchant
       \<and> merchantEncounterCount gm' = merchantEncounterCount gm + 1
       \<and> map_option m_kind (g_merchant gm') = Some (m_kind (createMerchant (merchantEncounterCount gm + 1)))"
  using assms
  by (auto simp: handleEnemyDefeat_def Let_def resetForNextTurn_def resetDiceAssignments_def
        generateInventory_def
      split: option.splits prod.splits)

text \<open>
  C5, as stated, resolves a count that is a multiple of several moduli in the order 6, 9,
  12. The code checks 9 first: the eighteenth merchant is a black market, not a discount
  merchant.
\<close>

theorem merchant_order_counterexample:
  "m_kind (createMerchant 18) = BlackMarketMerchant
   \<and> claimedMerchantKind 18 = DiscountMerchant
   \<and> m_kind (createMerchant 18) \<noteq> claimedMerchantKind 18"
  by (simp add: createMerchant_def Merchant_new_def claimedMerchantKind_def)

text \<open>
  C5, amended: for every encounter count \<open>n \<ge> 1\<close> the merchant is a black market when
  \<open>n\<close> is a multiple of 9, otherwise a discount merchant when \<open>n\<close> is a multiple of 6,
  and a normal merchant when \<open>n\<close> is a multiple of none of 6, 9 and 12: the code checks
  9, then 6, then 12.
\<close>

theorem merchant_variant_by_code_order:
  assumes "1 \<le> n"
  shows "(n mod 9 = 0 \<longrightarrow> m_kind (createMerchant n) = BlackMarketMerchant)
       \<and> (n mod 9 \<noteq> 0 \<and> n mod 6 = 0 \<longrightarrow> m_kind (createMerchant n) = DiscountMerchant)
       \<and> (n mod 9 \<noteq> 0 \<and> n mod 6 \<noteq> 0 \<and> n mod 12 \<noteq> 0 \<longrightarrow>
            m_kind (createMerchant n) = NormalMerchant)"
  using assms by (simp add: createMerchant_def Merchant_new_def)

theorem merchant_variant_by_code_order_witness:
  "m_kind (createMerchant 9) = BlackMarketMerchant
   \<and> m_kind (createMerchant 36) = BlackMarketMerchant
   \<and> m_kind (createMerchant 6) = DiscountMerchant
   \<and> m_kind (createMerchant 12) = DiscountMerchant
   \<and> m_kind (createMerchant 1) = NormalMerchant"
  using merchant_variant_by_code_order [of 9] merchant_variant_by_code_order [of 36]
    merchant_variant_by_code_order [of 6] merchant_variant_by_code_order [of 12]
    merchant_variant_by_code_order [of 1]
  by simp

subsection \<open>Frozen and the enemy's next attack\<close>

text \<open>
  What holds: with two frost symbols the Frost Weaver's special succeeds and hands over
  the Frozen effect, and an attack of an enemy whose first Frozen effect has reduction
  \<open>1/2\<close> is halved and floored (the half of an integer below \<open>2^53\<close> is a binary64
  number, \<open>round64_half_of_int\<close>).
\<close>

lemma frost_special_activates:
  assumes "className p = FrostWeaver" and "2 \<le> countSymbol ''frost'' (c_specialDice ctx)"
  shows "snd (activateSpecial env ctx p) = p
       \<and> r_success (fst (activateSpecial env ctx p)) = Some True
       \<and> r_applyEffect (fst (activateSpecial env ctx p))
           = Some ((mkEffect ''Frozen'')\<lparr>fx_attackReduction := Some (1/2), fx_duration := Some 2\<rparr>)"
  using assms by (simp add: activateSpecial_def frostWeaverSpecial_def Let_def emptyResult_def)

lemma frozen_attack_is_halved:
  assumes "getNextAction env (e\<lparr>turnCounter := turnCounter e + 1\<rparr>) = (act, e1)"
    and "a_type act = AttackA"
    and "find (\<lambda>x. fx_name x = ''Frozen'') (effects e1) = Some fr"
    and "fx_attackReduction fr = Some (1/2)"
  shows "executeAction env e =
           (act\<lparr>a_value := map_option (\<lambda>v. \<lfloor>round64 (of_int v * (1/2))\<rfloor>) (a_value act)\<rparr>, e1)"
proof -
  from assms(3) obtain i where "i < length (effects e1)" and "fx_name (effects e1 ! i) = ''Frozen''"
    unfolding find_Some_iff by blast
  then have "\<exists>x \<in> set (effects e1). fx_name x = ''Frozen''"
    using nth_mem by blast
  then have h: "hasEffect ''Frozen'' e1" by (simp add: hasEffect_def)
  have t: "truthy (fx_attackReduction fr)" "round64 (1 - orZero (fx_attackReduction fr)) = 1/2"
    using round64_half by (simp_all add: assms(4) truthy_def orZero_def)
  show ?thesis
    unfolding executeAction_def assms(1) Let_def prod.case
    by (simp only: assms(2) assms(3) h t simp_thms if_True option.case)
qed

text \<open>
  C6 says that after a Frost Weaver's special the very next attack of the enemy is
  halved. The special does activate and the enemy does get Frozen with reduction 0.5 and
  duration 2. But the enemy's effects tick before the enemy acts: the duration is 1 when
  the enemy acts in the same turn and 0, the effect gone, before it acts in the next. In
  \<open>ghostGame\<close> the Ghost has acted three times. On the fourth turn the player puts two
  frost dice on the special slot: the special is logged, the Ghost's fourth action is
  its defend, and Frozen stays with duration 1. On the fifth turn the Ghost attacks, its
  first attack since the special: not for 4 but for its full 9, and the player goes
  from 97 to 88 hit points.
\<close>

theorem frozen_expires_before_the_next_attack:
  "case ghostGame of
     None \<Rightarrow> False
   | Some gm \<Rightarrow>
       map_option (\<lambda>e. (ename e, attack e, turnCounter e)) (g_enemy gm) = Some (''Ghost'', 9, 3)
       \<and> (case playTurn env0 [(''die1'', SpecialSlot), (''die3'', SpecialSlot)] gm of
             Some (TurnDone lg4 playerHP4 enemyHP4, gm4) \<Rightarrow>
               (LogSpecial, [S ''Frozen Prison! Enemy attack reduced by 50% for 2 rounds!'']) \<in> set lg4
               \<and> (LogEnemy, [S ''Ethereal Form'']) \<in> set lg4
               \<and> playerHP4 = 97
               \<and> map_option (\<lambda>e. map (\<lambda>x. (fx_name x, fx_attackReduction x, fx_duration x)) (effects e))
                    (g_enemy gm4) = Some [(''Frozen'', Some (1/2), Some 1)]
               \<and> (case playTurn env1 [(''die3'', AttackSlot)] gm4 of
                     Some (TurnDone lg5 playerHP5 enemyHP5, gm5) \<Rightarrow>
                       (LogEnemy, [S ''Ghost'', S '' attacks'', S '' for '', N 9, S '' damage!'']) \<in> set lg5
                       \<and> playerHP5 = 88
                       \<and> map_option effects (g_enemy gm5) = Some []
                   | _ \<Rightarrow> False)
           | _ \<Rightarrow> False)"
  by code_simp

subsection \<open>Scaling and category of a new enemy\<close>

lemmas creator_defs =
  createGoblin_def createSkeleton_def createRat_def createBat_def createSlime_def
  createZombie_def createWolf_def createSpider_def createBandit_def createCultist_def
  createImp_def createGhost_def createWisp_def createMushroom_def createCrab_def
  createSnake_def createScorpion_def createHarpy_def createGremlin_def
  createShadowling_def createFireElemental_def createIceElemental_def
  createWindElemental_def createEarthElemental_def createCorruptedKnight_def
  createStoneGolem_def createDarkMage_def createBerserker_def createNecromancer_def
  createAssassin_def createWarlock_def createVampire_def createWerewolf_def
  createMinotaur_def createHydra_def createPhoenix_def createFrostGiant_def
  createDemonLord_def createDragonKnight_def createLich_def createDragon_def
  createDemonKing_def createAncientLich_def createTitanGolem_def createVoidLord_def
  createArchmage_def createDarkOverlord_def createCelestialBeing_def
  createEldritchHorror_def createPrimordialBeast_def

text \<open>The three lists of creators make the rows of the catalogue, in this order.\<close>

lemma minions_rows: "list_all2 (madeFrom Minion) minions minionTable"
  by (simp add: minions_def minionTable_def madeFrom_def creator_defs Enemy_new_def Let_def)

lemma elites_rows: "list_all2 (madeFrom Elite) elites eliteTable"
  by (simp add: elites_def eliteTable_def madeFrom_def creator_defs Enemy_new_def Let_def)

lemma bosses_rows: "list_all2 (madeFrom Boss) bosses bossTable"
  by (simp add: bosses_def bossTable_def madeFrom_def creator_defs Enemy_new_def Let_def)

text \<open>
  With a draw of \<^verbatim>\<open>Math.random()\<close>, a list of creators that makes the rows of a table
  yields the enemy of the row at the index drawn.
\<close>

lemma spawn_from_rows:
  assumes rows: "list_all2 (madeFrom ty) roster rows" and ne: "rows \<noteq> []" and len: "length rows < 2 ^ 53"
    and u: "0 \<le> u" "u \<le> 1 - 1 / 2 ^ 53"
  shows "\<exists>c. pick u roster = Some c
           \<and> madeFrom ty c (rows ! nat \<lfloor>round64 (u * of_nat (length rows))\<rfloor>)"
proof -
  have l: "length roster = length rows" using rows by (rule list_all2_lengthD)
  let ?i = "nat \<lfloor>round64 (u * of_nat (length roster))\<rfloor>"
  have "roster \<noteq> []" using ne l by auto
  then have p: "?i < length roster \<and> pick u roster = Some (roster ! ?i)"
    using u len l by (intro pick_in_range) simp_all
  then have "madeFrom ty (roster ! ?i) (rows ! ?i)"
    using rows by (simp add: list_all2_nthD)
  with p show ?thesis by (simp add: l)
qed

lemma enemy_examples:
  "map_option (\<lambda>e. (ename e, etype e, maxHP e, currentHP e, attack e, defense e))
     (createEnemy (env0\<lparr>rndSpawn := 3/32\<rparr>) 9) = Some (''Giant Rat'', Minion, 46, 46, 14, 0)
   \<and> map_option (\<lambda>e. (ename e, etype e, maxHP e, currentHP e, attack e, defense e))
     (createEnemy env0 5) = Some (''Stone Golem'', Elite, 140, 140, 21, 5)
   \<and> map_option (\<lambda>e. (ename e, etype e, maxHP e, currentHP e, attack e, defense e))
     (createEnemy env0 10) = Some (''Ancient Dragon'', Boss, 375, 375, 62, 8)"
  by code_simp

text \<open>
  C7, as stated, gives an enemy of round \<open>r\<close> the hit points
  \<open>floor (baseHP * (1 + r * 0.15))\<close>. The code computes the multiplier and the product in
  binary64: in round 9 the multiplier is the binary64 number just below \<open>2.35\<close>, and the
  Giant Rat, of base hit points 20, gets 46 hit points where the formula gives 47.
\<close>

theorem scaling_is_rounded_counterexample:
  "createEnemy (env0\<lparr>rndSpawn := 3/32\<rparr>) 9 = Some (createRat 9)
   \<and> ename (createRat 9) = ''Giant Rat''
   \<and> maxHP (createRat 9) = fst (scaleStats 20 6 9)
   \<and> maxHP (createRat 9) = 46
   \<and> claimedScale 20 9 = 47"
  by code_simp

text \<open>
  C7, amended: for every round \<open>r \<ge> 1\<close> and every draw of \<^verbatim>\<open>Math.random()\<close>,
  \<^verbatim>\<open>createEnemy\<close> returns an enemy. Its category is Boss when \<open>r mod 10 = 0\<close>, else Elite
  when \<open>r mod 5 = 0\<close>, else Minion; it is the enemy of the row of that category's catalogue
  at the index drawn, with the name and the defense of the row; and its hit points
  (maximal and current) and its attack are \<open>floor (base * (1 + r * 0.15))\<close> for the base
  values of the row, where \<open>0.15\<close>, the product \<open>r * 0.15\<close>, the sum and the product with
  the base are each rounded to binary64.
\<close>

theorem enemy_scaling_and_category:
  assumes "1 \<le> r" and "0 \<le> rndSpawn env" and "rndSpawn env \<le> 1 - 1 / 2 ^ 53"
  shows "\<exists>e. createEnemy env r = Some e \<and>
           (let ty = (if r mod 10 = 0 then Boss else if r mod 5 = 0 then Elite else Minion);
                rows = enemyTable ty;
                (nm, baseHP, baseAtk, df) = rows ! nat \<lfloor>round64 (rndSpawn env * of_nat (length rows))\<rfloor>;
                multiplier = round64 (1 + round64 (of_int r * round64 (15/100)))
            in etype e = ty \<and> ename e = nm \<and> defense e = df
             \<and> maxHP e = \<lfloor>round64 (of_int baseHP * multiplier)\<rfloor> \<and> currentHP e = maxHP e
             \<and> attack e = \<lfloor>round64 (of_int baseAtk * multiplier)\<rfloor> \<and> baseAttack e = attack e)"
proof -
  define ty where "ty = (if r mod 10 = 0 then Boss else if r mod 5 = 0 then Elite else Minion)"
  define roster where "roster = (case ty of Minion \<Rightarrow> minions | Elite \<Rightarrow> elites | Boss \<Rightarrow> bosses)"
  define row where "row = enemyTable ty ! nat \<lfloor>round64 (rndSpawn env * of_nat (length (enemyTable ty)))\<rfloor>"
  have rows: "list_all2 (madeFrom ty) roster (enemyTable ty)"
    using minions_rows elites_rows bosses_rows
    by (cases ty) (simp_all add: roster_def enemyTable_def)
  have ne: "enemyTable ty \<noteq> []" and len: "length (enemyTable ty) < 2 ^ 53"
    by (cases ty; simp add: enemyTable_def minionTable_def eliteTable_def bossTable_def)+
  from spawn_from_rows [OF rows ne len assms(2,3)]
  obtain c where c: "pick (rndSpawn env) roster = Some c" and m: "madeFrom ty c row"
    unfolding row_def by blast
  have ce: "createEnemy env r = Some (c r)"
    using c assms(1)
    by (auto simp: createEnemy_def createBoss_def createElite_def createMinion_def
          roster_def ty_def Let_def)
  obtain nm baseHP baseAtk df where row: "row = (nm, baseHP, baseAtk, df)"
    by (cases row)
  have "etype (c r) = ty \<and> ename (c r) = nm \<and> defense (c r) = df
      \<and> maxHP (c r) = fst (scaleStats baseHP baseAtk r) \<and> currentHP (c r) = maxHP (c r)
      \<and> attack (c r) = snd (scaleStats baseHP baseAtk r) \<and> baseAttack (c r) = attack (c r)"
    using m row by (simp add: madeFrom_def)
  then show ?thesis
    using ce row unfolding ty_def [symmetric] row_def [symmetric]
    by (simp add: scaleStats_def Let_def ty_def [symmetric] row_def [symmetric])
qed

theorem enemy_scaling_and_category_witness:
  "map_option (\<lambda>e. (ename e, etype e, maxHP e, currentHP e, attack e, defense e))
     (createEnemy (env0\<lparr>rndSpawn := 3/32\<rparr>) 9) = Some (''Giant Rat'', Minion, 46, 46, 14, 0)
   \<and> map_option (\<lambda>e. (ename e, etype e, maxHP e, currentHP e, attack e, defense e))
     (createEnemy env0 5) = Some (''Stone Golem'', Elite, 140, 140, 21, 5)
   \<and> map_option (\<lambda>e. (ename e, etype e, maxHP e, currentHP e, attack e, defense e))
     (createEnemy env0 10) = Some (''Ancient Dragon'', Boss, 375, 375, 62, 8)"
  using enemy_scaling_and_category [of 9 "env0\<lparr>rndSpawn := 3/32\<rparr>"]
        enemy_scaling_and_category [of 5 env0]
        enemy_scaling_and_category [of 10 env0]
        enemy_examples
  by (simp add: env0_def)

subsection \<open>A special below its threshold\<close>



text \<open>
  The passive returns, except for a Chaos Mage whose draw is no draw of
  \<^verbatim>\<open>Math.random()\<close>.
\<close>

lemma resolvePassive_returns:
  assumes "0 \<le> rndChaosEffect env" and "rndChaosEffect env \<le> 1 - 1 / 2 ^ 53"
  shows "\<exists>t1. resolvePassive env ctx t0 = Some t1"
proof -
  have "\<exists>x. pick (rndChaosEffect env) chaosRandomEffects = Some x"
    using pick_in_range [OF assms, of chaosRandomEffects] by (simp add: chaosRandomEffects_def)
  then have "\<exists>r. applyPassiveAbility env ctx (t_player t0) = Some r"
    by (cases "className (t_player t0)")
       (auto simp: applyPassiveAbility_def chaosMagePassive_def Let_def)
  then show ?thesis
    by (auto simp: resolvePassive_def Let_def split: prod.splits)
qed















subsection \<open>The best-runs store\<close>

lemma saveBestRun_store:
  "loadBestRuns (saveBestRun env gm) =
     take 10 (sort_key (\<lambda>r. - rd_round r) (loadBestRuns gm @ [currentRunData env gm]))"
  by (simp add: saveBestRun_def loadBestRuns_def Let_def)

text \<open>
  In a list sorted by \<open>f\<close>, an element is among the first \<open>n\<close> when at most \<open>n\<close>
  elements have a key up to its own.
\<close>

lemma in_take_of_sorted:
  assumes srt: "sorted (map f l)" and mem: "x \<in> set l"
    and cnt: "length (filter (\<lambda>y. f y \<le> f x) l) \<le> n"
  shows "x \<in> set (take n l)"
proof -
  from mem obtain i where i: "i < length l" and li: "l ! i = x"
    by (auto simp: in_set_conv_nth)
  have below: "\<forall>y \<in> set (take (Suc i) l). f y \<le> f x"
  proof
    fix y assume "y \<in> set (take (Suc i) l)"
    then obtain j where j: "j < Suc i" "j < length l" and y: "y = l ! j"
      by (auto simp: in_set_conv_nth)
    have "map f l ! j \<le> map f l ! i"
      using srt j i by (intro sorted_nth_mono) auto
    then show "f y \<le> f x" using y li i j by simp
  qed
  have "filter (\<lambda>y. f y \<le> f x) l
        = filter (\<lambda>y. f y \<le> f x) (take (Suc i) l) @ filter (\<lambda>y. f y \<le> f x) (drop (Suc i) l)"
    by (metis append_take_drop_id filter_append)
  moreover have "filter (\<lambda>y. f y \<le> f x) (take (Suc i) l) = take (Suc i) l"
    using below by (simp add: filter_id_conv)
  ultimately have "Suc i \<le> length (filter (\<lambda>y. f y \<le> f x) l)"
    using i by simp
  then have "i < n" using cnt by simp
  then show ?thesis using i li by (auto simp: in_set_conv_nth)
qed

lemma sorted_desc_take_sort:
  "sorted_wrt (\<lambda>a b. rd_round b \<le> rd_round a) (take n (sort_key (\<lambda>r. - rd_round r) xs))"
proof -
  have "sorted (map (\<lambda>r. - rd_round r) (sort_key (\<lambda>r. - rd_round r) xs))"
    by (rule sorted_sort_key)
  then have "sorted_wrt (\<lambda>a b. rd_round b \<le> rd_round a) (sort_key (\<lambda>r. - rd_round r) xs)"
    by (simp add: sorted_map)
  then show ?thesis by (rule sorted_wrt_take)
qed

text \<open>
  The elements of a prefix that satisfy \<open>P\<close> are the first of the elements that satisfy
  \<open>P\<close>; and when the prefix of a sorted list leaves one out, the keys in the prefix are
  at most its key.
\<close>

lemma filter_take_prefix:
  "filter P (take n l) = take (length (filter P (take n l))) (filter P l)"
proof -
  have "filter P l = filter P (take n l) @ filter P (drop n l)"
    by (metis append_take_drop_id filter_append)
  then show ?thesis by simp
qed

lemma left_out_of_sorted:
  assumes srt: "sorted (map f l)"
    and less: "length (filter P (take n l)) < length (filter P l)"
  shows "\<exists>x \<in> set l. P x \<and> (\<forall>y \<in> set (take n l). f y \<le> f x)"
proof -
  have split: "l = take n l @ drop n l" by simp
  have "filter P l = filter P (take n l) @ filter P (drop n l)"
    by (metis append_take_drop_id filter_append)
  with less have "filter P (drop n l) \<noteq> []" by auto
  then obtain x where x: "x \<in> set (drop n l)" "P x"
    by (metis filter_False)
  have "sorted (map f (take n l) @ map f (drop n l))"
    using srt by (metis split map_append)
  then have "\<forall>a \<in> set (map f (take n l)). \<forall>b \<in> set (map f (drop n l)). a \<le> b"
    by (simp add: sorted_append)
  then have "\<forall>y \<in> set (take n l). f y \<le> f x" using x(1) by auto
  moreover have "x \<in> set l" using x(1) by (rule in_set_dropD)
  ultimately show ?thesis using x(2) by blast
qed

text \<open>
  C9, as stated, promises that the list loaded after a save contains the run just saved.
  With ten saved runs of five rounds each, a run of no round is cut off by the
  truncation: the loaded list is the old one.
\<close>

theorem full_store_drops_the_new_run:
  "length (loadBestRuns fullStoreGame) = 10
   \<and> rd_round (currentRunData env0 fullStoreGame) = 0
   \<and> loadBestRuns (saveBestRun env0 fullStoreGame) = loadBestRuns fullStoreGame
   \<and> currentRunData env0 fullStoreGame \<notin> set (loadBestRuns (saveBestRun env0 fullStoreGame))"
  by code_simp

text \<open>
  C9, amended: for every prior content of the store and every run saved, the list loaded
  after the save is sorted by descending rounds survived and has the prior length plus
  one, at most 10. Its runs are runs of the prior list and the new run: for every number
  \<open>k\<close> of rounds, the loaded runs of \<open>k\<close> rounds are the first of the runs of \<open>k\<close> rounds
  of the prior list followed by the new run, in that order; and when one of these is left
  out, every loaded run has at least \<open>k\<close> rounds. The list contains the run just saved
  whenever fewer than ten of the prior runs survived at least as many rounds.
\<close>

theorem best_runs_roundtrip:
  "length (loadBestRuns (saveBestRun env gm)) \<le> 10
   \<and> length (loadBestRuns (saveBestRun env gm)) = min 10 (length (loadBestRuns gm) + 1)
   \<and> sorted_wrt (\<lambda>a b. rd_round b \<le> rd_round a) (loadBestRuns (saveBestRun env gm))
   \<and> (\<forall>k. filter (\<lambda>r. rd_round r = k) (loadBestRuns (saveBestRun env gm))
            = take (length (filter (\<lambda>r. rd_round r = k) (loadBestRuns (saveBestRun env gm))))
                (filter (\<lambda>r. rd_round r = k) (loadBestRuns gm @ [currentRunData env gm])))
   \<and> (\<forall>k. length (filter (\<lambda>r. rd_round r = k) (loadBestRuns (saveBestRun env gm)))
              < length (filter (\<lambda>r. rd_round r = k) (loadBestRuns gm @ [currentRunData env gm]))
            \<longrightarrow> (\<forall>y \<in> set (loadBestRuns (saveBestRun env gm)). k \<le> rd_round y))
   \<and> (length (filter (\<lambda>r. rd_round (currentRunData env gm) \<le> rd_round r) (loadBestRuns gm)) < 10
        \<longrightarrow> currentRunData env gm \<in> set (loadBestRuns (saveBestRun env gm)))"
proof -
  let ?f = "\<lambda>r. - rd_round r"
  let ?new = "currentRunData env gm"
  let ?all = "loadBestRuns gm @ [?new]"
  let ?l = "sort_key ?f ?all"
  have res: "loadBestRuns (saveBestRun env gm) = take 10 ?l"
    by (rule saveBestRun_store)
  have len: "length (take 10 ?l) = min 10 (length (loadBestRuns gm) + 1)"
    by simp
  have srt: "sorted_wrt (\<lambda>a b. rd_round b \<le> rd_round a) (take 10 ?l)"
    by (rule sorted_desc_take_sort)
  have stable: "filter (\<lambda>r. rd_round r = k) ?l = filter (\<lambda>r. rd_round r = k) ?all" for k
    using sort_key_stable [of ?f "- k" ?all] by simp
  have pre: "filter (\<lambda>r. rd_round r = k) (take 10 ?l)
             = take (length (filter (\<lambda>r. rd_round r = k) (take 10 ?l)))
                 (filter (\<lambda>r. rd_round r = k) ?all)" for k
    using filter_take_prefix [of "\<lambda>r. rd_round r = k" 10 ?l] by (simp only: stable)
  have top: "\<forall>y \<in> set (take 10 ?l). k \<le> rd_round y"
    if less: "length (filter (\<lambda>r. rd_round r = k) (take 10 ?l))
              < length (filter (\<lambda>r. rd_round r = k) ?all)" for k
  proof -
    have a: "sorted (map ?f ?l)" by (rule sorted_sort_key)
    have b: "length (filter (\<lambda>r. rd_round r = k) (take 10 ?l))
             < length (filter (\<lambda>r. rd_round r = k) ?l)"
      using less by (simp only: stable)
    have "\<exists>x \<in> set ?l. rd_round x = k \<and> (\<forall>y \<in> set (take 10 ?l). ?f y \<le> ?f x)"
      by (rule left_out_of_sorted [OF a b])
    then show ?thesis by auto
  qed
  have mem: "?new \<in> set (take 10 ?l)"
    if few: "length (filter (\<lambda>r. rd_round ?new \<le> rd_round r) (loadBestRuns gm)) < 10"
  proof (rule in_take_of_sorted [where f = ?f])
    show "sorted (map ?f ?l)" by (rule sorted_sort_key)
    show "?new \<in> set ?l" by simp
    have "length (filter (\<lambda>y. ?f y \<le> ?f ?new) ?l)
          = length (filter (\<lambda>y. ?f y \<le> ?f ?new) (loadBestRuns gm @ [?new]))"
      by (simp add: filter_sort)
    also have "\<dots> = length (filter (\<lambda>r. rd_round ?new \<le> rd_round r) (loadBestRuns gm)) + 1"
      by simp
    finally show "length (filter (\<lambda>y. ?f y \<le> ?f ?new) ?l) \<le> 10"
      using few by simp
  qed
  show ?thesis
    unfolding res
    using len srt pre top mem by (intro conjI allI impI) (simp_all only:, simp_all)
qed

lemma varied_store_example:
  "map rd_round (loadBestRuns variedStoreGame) = [9, 8, 7, 6, 5, 5, 4, 3, 2, 1]
   \<and> rd_round (currentRunData env0 variedStoreGame) = 5
   \<and> rd_className (currentRunData env0 variedStoreGame) = Some BladeDancer
   \<and> length (filter (\<lambda>r. 5 \<le> rd_round r) (loadBestRuns variedStoreGame)) = 6
   \<and> map rd_round (loadBestRuns (saveBestRun env0 variedStoreGame)) = [9, 8, 7, 6, 5, 5, 5, 4, 3, 2]
   \<and> map rd_className (loadBestRuns (saveBestRun env0 variedStoreGame))
       = [Some FrostWeaver, Some FrostWeaver, Some FrostWeaver, Some FrostWeaver, Some FrostWeaver,
          Some FrostWeaver, Some BladeDancer, Some FrostWeaver, Some FrostWeaver, Some FrostWeaver]
   \<and> loadBestRuns (saveBestRun env0 variedStoreGame) ! 6 = currentRunData env0 variedStoreGame
   \<and> currentRunData env0 variedStoreGame \<in> set (loadBestRuns (saveBestRun env0 variedStoreGame))"
  by code_simp

theorem best_runs_roundtrip_witness:
  "map rd_round (loadBestRuns variedStoreGame) = [9, 8, 7, 6, 5, 5, 4, 3, 2, 1]
   \<and> rd_round (currentRunData env0 variedStoreGame) = 5
   \<and> rd_className (currentRunData env0 variedStoreGame) = Some BladeDancer
   \<and> length (filter (\<lambda>r. 5 \<le> rd_round r) (loadBestRuns variedStoreGame)) = 6
   \<and> map rd_round (loadBestRuns (saveBestRun env0 variedStoreGame)) = [9, 8, 7, 6, 5, 5, 5, 4, 3, 2]
   \<and> map rd_className (loadBestRuns (saveBestRun env0 variedStoreGame))
       = [Some FrostWeaver, Some FrostWeaver, Some FrostWeaver, Some FrostWeaver, Some FrostWeaver,
          Some FrostWeaver, Some BladeDancer, Some FrostWeaver, Some FrostWeaver, Some FrostWeaver]
   \<and> loadBestRuns (saveBestRun env0 variedStoreGame) ! 6 = currentRunData env0 variedStoreGame
   \<and> currentRunData env0 variedStoreGame \<in> set (loadBestRuns (saveBestRun env0 variedStoreGame))"
  using best_runs_roundtrip [of env0 variedStoreGame] varied_store_example
  by simp

subsection \<open>Damage over time on an enemy\<close>

lemma tickDamage_nonneg: "0 \<le> tickDamage d xs"
  unfolding tickDamage_def by (induction xs) auto

lemma tickDamage_Cons:
  "tickDamage d (x # xs) =
     (if truthy (fx_damage x) then max 0 (orZero (fx_damage x) - d) else 0) + tickDamage d xs"
  by (simp add: tickDamage_def)

lemma tickDamage_zero:
  "\<forall>x \<in> set xs. orZero (fx_damage x) \<le> d \<Longrightarrow> tickDamage d xs = 0"
  unfolding tickDamage_def by (induction xs) auto

lemma Enemy_tickEffect_fields:
  "defense (Enemy_tickEffect x e) = defense e \<and> effects (Enemy_tickEffect x e) = effects e
   \<and> maxHP (Enemy_tickEffect x e) = maxHP e"
  by (simp add: Enemy_tickEffect_def Enemy_takeDamage_def heal_def Let_def)

lemma Enemy_tickEffect_damage_only:
  assumes "\<not> truthy (fx_healing x)"
  shows "currentHP (Enemy_tickEffect x e) =
         (if truthy (fx_damage x)
          then max 0 (currentHP e - max 0 (orZero (fx_damage x) - defense e))
          else currentHP e)"
  using assms by (simp add: Enemy_tickEffect_def Enemy_takeDamage_def Let_def)

lemma max0_chain: "(0::int) \<le> b \<Longrightarrow> max 0 (max 0 (h - a) - b) = max 0 (h - (a + b))"
  by (simp add: max_def)

lemma fold_tick_damage_only:
  assumes "\<forall>x \<in> set xs. \<not> truthy (fx_healing x)" and "0 \<le> currentHP e"
  shows "currentHP (fold Enemy_tickEffect xs e) = max 0 (currentHP e - tickDamage (defense e) xs)
       \<and> defense (fold Enemy_tickEffect xs e) = defense e
       \<and> effects (fold Enemy_tickEffect xs e) = effects e"
  using assms
proof (induction xs arbitrary: e)
  case Nil
  then show ?case by (simp add: tickDamage_def)
next
  case (Cons x xs)
  let ?e1 = "Enemy_tickEffect x e"
  let ?a = "if truthy (fx_damage x) then max 0 (orZero (fx_damage x) - defense e) else 0"
  have h: "\<not> truthy (fx_healing x)" using Cons.prems by simp
  have hp1: "currentHP ?e1 = max 0 (currentHP e - ?a)"
    using Enemy_tickEffect_damage_only [OF h, of e] Cons.prems(2) by simp
  have nonneg: "0 \<le> currentHP ?e1" using hp1 by simp
  have IH: "currentHP (fold Enemy_tickEffect xs ?e1) = max 0 (currentHP ?e1 - tickDamage (defense e) xs)
       \<and> defense (fold Enemy_tickEffect xs ?e1) = defense e
       \<and> effects (fold Enemy_tickEffect xs ?e1) = effects e"
    using Cons.IH [of ?e1] Cons.prems nonneg by (simp add: Enemy_tickEffect_fields)
  have "max 0 (currentHP ?e1 - tickDamage (defense e) xs)
        = max 0 (currentHP e - (?a + tickDamage (defense e) xs))"
    unfolding hp1 by (rule max0_chain) (rule tickDamage_nonneg)
  then show ?case
    using IH by (simp add: tickDamage_Cons)
qed

lemma golem_stats: "scaleStats 80 12 1 = (92, 13) \<and> scaleStats 180 20 10 = (450, 50)"
  by code_simp

lemma burn_examples:
  "currentHP (createStoneGolem 1) = 92 \<and> defense (createStoneGolem 1) = 5
   \<and> currentHP (Enemy_updateEffects (addEffect infernoBurn (createStoneGolem 1))) = 87
   \<and> currentHP (createTitanGolem 10) = 450 \<and> defense (createTitanGolem 10) = 10
   \<and> currentHP (Enemy_updateEffects (addEffect infernoBurn (createTitanGolem 10))) = 450"
  by (simp add: createStoneGolem_def createTitanGolem_def golem_stats Enemy_new_def
        Enemy_updateEffects_def Enemy_tickEffect_def Enemy_takeDamage_def addEffect_def
        infernoBurn_def mkEffect_def Let_def)

lemma burn_example_effects:
  "effects (addEffect infernoBurn (createStoneGolem 1)) = [infernoBurn]
   \<and> effects (addEffect infernoBurn (createTitanGolem 10)) = [infernoBurn]
   \<and> fx_healing infernoBurn = None \<and> fx_damage infernoBurn = Some 10"
  by (simp add: addEffect_def createStoneGolem_def createTitanGolem_def Enemy_new_def Let_def
        infernoBurn_def mkEffect_def)

text \<open>
  C10. For every enemy with defense \<open>d\<close> and no healing effect, one pass of
  \<^verbatim>\<open>updateEffects\<close> takes \<open>tickDamage d\<close> of its effects from its hit points (down to 0
  at most): an effect of damage \<open>a\<close> counts for \<open>max 0 (a - d)\<close>, not for \<open>a\<close>. When
  no effect's damage exceeds \<open>d\<close>, the pass takes nothing.
\<close>

theorem enemy_tick_damage_is_mitigated:
  assumes "\<forall>x \<in> set (effects e). \<not> truthy (fx_healing x)" and "0 \<le> currentHP e"
  shows "currentHP (Enemy_updateEffects e) = max 0 (currentHP e - tickDamage (defense e) (effects e))
       \<and> tickDamage (defense e) [x] = (if truthy (fx_damage x) then max 0 (orZero (fx_damage x) - defense e) else 0)
       \<and> ((\<forall>x \<in> set (effects e). orZero (fx_damage x) \<le> defense e)
            \<longrightarrow> currentHP (Enemy_updateEffects e) = currentHP e)"
proof -
  have 1: "currentHP (Enemy_updateEffects e) = max 0 (currentHP e - tickDamage (defense e) (effects e))"
    using fold_tick_damage_only [OF assms] by (simp add: Enemy_updateEffects_def Let_def)
  show ?thesis
    using 1 tickDamage_zero [of "effects e" "defense e"] assms(2) by (auto simp: tickDamage_def)
qed

theorem enemy_tick_damage_is_mitigated_witness:
  "currentHP (createStoneGolem 1) = 92 \<and> defense (createStoneGolem 1) = 5
   \<and> currentHP (Enemy_updateEffects (addEffect infernoBurn (createStoneGolem 1))) = 87
   \<and> currentHP (createTitanGolem 10) = 450 \<and> defense (createTitanGolem 10) = 10
   \<and> currentHP (Enemy_updateEffects (addEffect infernoBurn (createTitanGolem 10))) = 450"
  using enemy_tick_damage_is_mitigated [of "addEffect infernoBurn (createStoneGolem 1)" infernoBurn]
        enemy_tick_damage_is_mitigated [of "addEffect infernoBurn (createTitanGolem 10)" infernoBurn]
        burn_examples burn_example_effects
  by simp

end
